theory Spec2Isabelle
  imports Main
begin

section \<open>Python values, strings and exceptions\<close>

text \<open>
  The repository is a thin layer over three database drivers (sqlite3, psycopg2,
  mysql.connector), a generative-model client and a web framework. The layer itself is
  embedded here function by function; the drivers and the model client are parameters.
  Strings are ASCII \<open>char list\<close>s.
\<close>

text \<open>Python's \<open>sep.join(parts)\<close>.\<close>

fun join :: "string \<Rightarrow> string list \<Rightarrow> string" where
  "join sep [] = []"
| "join sep [x] = x"
| "join sep (x # y # ys) = x @ sep @ join sep (y # ys)"

text \<open>
  Exceptions are values: the class that \<open>except\<close> clauses and callers see, and the text
  that \<open>str(e)\<close> gives. \<open>DriverError\<close> stands for the exception classes of the three
  drivers; like every class below it derives from \<open>Exception\<close>.
\<close>

datatype exn_class =
  ConnectionError | KeyError | AttributeError | TypeError | ValueError | IndexError
  | DriverError | PlainException

datatype exn = Exn (exn_cls: exn_class) (exn_str: string)

text \<open>
  \<open>repr\<close> of an ASCII string, which is what \<open>str(KeyError(key))\<close> shows: single quotes
  unless the string holds a single quote and no double quote; backslash, the chosen
  quote and control characters escaped.
\<close>

definition hex_digit :: "nat \<Rightarrow> char" where
  "hex_digit n = ''0123456789abcdef'' ! (n mod 16)"

definition repr_char :: "char \<Rightarrow> char \<Rightarrow> string" where
  "repr_char q c =
     (if c = q \<or> c = CHR 0x5C then [CHR 0x5C, c]
      else if c = CHR 0x09 then [CHR 0x5C, CHR ''t'']
      else if c = CHR 0x0A then [CHR 0x5C, CHR ''n'']
      else if c = CHR 0x0D then [CHR 0x5C, CHR ''r'']
      else if (of_char c :: nat) < 32 \<or> c = CHR 0x7F
        then [CHR 0x5C, CHR ''x'', hex_digit (of_char c div 16), hex_digit (of_char c)]
      else [c])"

definition py_repr :: "string \<Rightarrow> string" where
  "py_repr s =
     (let q = (if CHR 0x27 \<in> set s \<and> CHR 0x22 \<notin> set s then CHR 0x22 else CHR 0x27)
      in q # concat (map (repr_char q) s) @ [q])"

text \<open>
  The values a DB-API row holds in the catalog queries of this program: NULL (Python
  \<open>None\<close>), integers and text.
\<close>

datatype sqlval = SNull | SInt int | SText string

type_synonym row = "sqlval list"

function str_nat :: "nat \<Rightarrow> string" where
  "str_nat n =
     (if n < 10 then [''0123456789'' ! n]
      else str_nat (n div 10) @ [''0123456789'' ! (n mod 10)])"
  by pat_completeness auto
termination
  by (relation "measure id") auto

declare str_nat.simps [simp del]

text \<open>\<open>str(v)\<close>, which is what an f-string field \<open>{v}\<close> inserts.\<close>

fun py_str :: "sqlval \<Rightarrow> string" where
  "py_str SNull = ''None''"
| "py_str (SInt i) = (if i < 0 then CHR ''-'' # str_nat (nat (- i)) else str_nat (nat i))"
| "py_str (SText s) = s"

text \<open>Truthiness, as in \<open>if default\<close>: \<open>None\<close>, \<open>0\<close> and the empty string are false.\<close>

fun py_bool :: "sqlval \<Rightarrow> bool" where
  "py_bool SNull = False"
| "py_bool (SInt i) = (i \<noteq> 0)"
| "py_bool (SText s) = (s \<noteq> [])"

text \<open>The \<open>AttributeError\<close> of \<open>None.name\<close>.\<close>

definition none_attr_error :: "string \<Rightarrow> exn" where
  "none_attr_error a =
     Exn AttributeError
       (CHR 0x27 # ''NoneType' object has no attribute '' @ [CHR 0x27] @ a @ [CHR 0x27])"

text \<open>\<open>row[i]\<close> on a tuple: out of range raises \<open>IndexError\<close>.\<close>

definition py_index :: "row \<Rightarrow> nat \<Rightarrow> exn + sqlval" where
  "py_index r i =
     (if i < length r then Inr (r ! i) else Inl (Exn IndexError ''tuple index out of range''))"

text \<open>\<open>f"{x}"\<close> for an optional string field: \<open>None\<close> is written \<open>None\<close>.\<close>

fun fmt_opt :: "string option \<Rightarrow> string" where
  "fmt_opt None = ''None''"
| "fmt_opt (Some s) = s"

section \<open>The database drivers\<close>

text \<open>
  Connections and cursors are handles. The outside world (the database servers and
  files, and the state of the driver objects) is a value of type \<open>'w\<close> that every driver
  call takes and returns, so a call can fail, change the world and answer differently
  from one moment to the next.
\<close>

type_synonym conn = nat
type_synonym cur = nat

record 'w driver =
  sqlite3_connect :: "string \<Rightarrow> 'w \<Rightarrow> (exn + conn) \<times> 'w"
  psycopg2_connect ::
    "string option \<Rightarrow> string \<Rightarrow> string option \<Rightarrow> string option \<Rightarrow> string option
       \<Rightarrow> 'w \<Rightarrow> (exn + conn) \<times> 'w"
  mysql_connect ::
    "string option \<Rightarrow> string \<Rightarrow> string option \<Rightarrow> string option \<Rightarrow> string option
       \<Rightarrow> 'w \<Rightarrow> (exn + conn) \<times> 'w"
  conn_commit :: "conn \<Rightarrow> 'w \<Rightarrow> exn option \<times> 'w"
  conn_cursor :: "conn \<Rightarrow> 'w \<Rightarrow> (exn + cur) \<times> 'w"
  cur_execute :: "cur \<Rightarrow> string \<Rightarrow> 'w \<Rightarrow> exn option \<times> 'w"
  cur_fetchall :: "cur \<Rightarrow> 'w \<Rightarrow> (exn + row list) \<times> 'w"
  cur_description :: "cur \<Rightarrow> 'w \<Rightarrow> string list option"
  cur_truthy :: "cur \<Rightarrow> bool"

text \<open>
  \<open>cur_description\<close> is the list of the first items (the column names) of
  \<open>cursor.description\<close>, or \<open>None\<close> when the last statement produced no result set;
  \<open>cur_truthy\<close> is the truth value of the cursor object in \<open>if cursor\<close>.
\<close>

section \<open>Data\_Base\_Manager.py: the connection cache\<close>

text \<open>The request model \<open>DBConfig\<close> of api.py, whose \<open>dict()\<close> is every \<open>db_data\<close>.\<close>

record db_config =
  db_type :: string
  db_host :: "string option"
  db_port :: "string option"
  db_name :: string
  db_user :: "string option"
  db_password :: "string option"

text \<open>
  The manager's state is its dict \<open>connections\<close>; a key can hold \<open>None\<close>, which is what
  \<open>_create_connection\<close> returns for a \<open>db_type\<close> outside its three branches.
\<close>

record 'w manager =
  connections :: "string \<rightharpoonup> conn option"
  world :: 'w

definition conn_key :: "db_config \<Rightarrow> string" where
  "conn_key d = db_type d @ ''_'' @ db_name d @ ''_'' @ fmt_opt (db_host d)"

definition wrap_connect :: "(exn + conn) \<times> 'w \<Rightarrow> (exn + conn option) \<times> 'w" where
  "wrap_connect r =
     (case r of
        (Inl e, w) \<Rightarrow> (Inl (Exn ConnectionError (''Failed to connect to database: '' @ exn_str e)), w)
      | (Inr c, w) \<Rightarrow> (Inr (Some c), w))"

text \<open>\<open>_create_connection\<close>: no branch for another \<open>db_type\<close>, so the function returns \<open>None\<close>.\<close>

definition create_connection ::
  "'w driver \<Rightarrow> db_config \<Rightarrow> 'w \<Rightarrow> (exn + conn option) \<times> 'w" where
  "create_connection drv d w =
     (if db_type d = ''SQLite'' then wrap_connect (sqlite3_connect drv (db_name d) w)
      else if db_type d = ''PostgreSQL'' then
        wrap_connect (psycopg2_connect drv (db_host d) (db_name d) (db_user d) (db_password d) (db_port d) w)
      else if db_type d = ''MySQL'' then
        wrap_connect (mysql_connect drv (db_host d) (db_name d) (db_user d) (db_password d) (db_port d) w)
      else (Inr None, w))"

text \<open>
  \<open>get_connection\<close> is a generator-based context manager. \<open>gc_enter\<close> is its code up to
  the \<open>yield\<close> (without the handlers): the value yielded, or the exception raised before
  the yield.
\<close>

definition gc_enter :: "'w driver \<Rightarrow> db_config \<Rightarrow> 'w manager \<Rightarrow> (exn + conn option) \<times> 'w manager" where
  "gc_enter drv d s =
     (case connections s (conn_key d) of
        None \<Rightarrow>
          (case create_connection drv d (world s) of
             (Inl e, w) \<Rightarrow> (Inl e, s\<lparr>world := w\<rparr>)
           | (Inr c, w) \<Rightarrow> (Inr c, s\<lparr>connections := (connections s)(conn_key d \<mapsto> c), world := w\<rparr>))
      | Some c \<Rightarrow> (Inr c, s))"

text \<open>The \<open>except Exception as e\<close> clause.\<close>

definition gc_except :: "exn + 'a \<Rightarrow> exn + 'a" where
  "gc_except r =
     (case r of
        Inl e \<Rightarrow> Inl (Exn ConnectionError (''Database connection failed: '' @ exn_str e))
      | Inr v \<Rightarrow> Inr v)"

text \<open>
  The \<open>finally\<close> block: for SQLite it reads \<open>self.connections[conn_key]\<close> and commits.
  An exception raised here replaces the one in flight and the value being returned.
\<close>

definition gc_finally :: "'w driver \<Rightarrow> db_config \<Rightarrow> 'w manager \<Rightarrow> exn option \<times> 'w manager" where
  "gc_finally drv d s =
     (if db_type d = ''SQLite'' then
        (case connections s (conn_key d) of
           None \<Rightarrow> (Some (Exn KeyError (py_repr (conn_key d))), s)
         | Some None \<Rightarrow>
             (Some (none_attr_error ''commit''), s)
         | Some (Some c) \<Rightarrow>
             (case conn_commit drv c (world s) of (r, w) \<Rightarrow> (r, s\<lparr>world := w\<rparr>)))
      else (None, s))"

text \<open>
  \<open>with self.get_connection(db_data) as conn: body\<close>. The body runs on the yielded value
  and the world; neither body in this program touches the manager.
\<close>

definition get_connection ::
  "'w driver \<Rightarrow> db_config \<Rightarrow> (conn option \<Rightarrow> 'w \<Rightarrow> (exn + 'a) \<times> 'w) \<Rightarrow> 'w manager
     \<Rightarrow> (exn + 'a) \<times> 'w manager" where
  "get_connection drv d body s =
     (case gc_enter drv d s of (r1, s1) \<Rightarrow>
        (case (case r1 of
                 Inl e \<Rightarrow> (Inl e, s1)
               | Inr c \<Rightarrow> (case body c (world s1) of (r, w) \<Rightarrow> (r, s1\<lparr>world := w\<rparr>)))
         of (r2, s2) \<Rightarrow>
           (case gc_finally drv d s2 of
              (Some e, s3) \<Rightarrow> (Inl e, s3)
            | (None, s3) \<Rightarrow> (gc_except r2, s3))))"

section \<open>Data\_Base\_Manager.py: schema inspection\<close>

text \<open>\<open>cursor.execute(sql)\<close> followed by \<open>cursor.fetchall()\<close>.\<close>

definition execute_fetchall :: "'w driver \<Rightarrow> cur \<Rightarrow> string \<Rightarrow> 'w \<Rightarrow> (exn + row list) \<times> 'w" where
  "execute_fetchall drv cu sql w =
     (case cur_execute drv cu sql w of
        (Some e, w1) \<Rightarrow> (Inl e, w1)
      | (None, w1) \<Rightarrow> cur_fetchall drv cu w1)"

text \<open>A list comprehension whose element expression can raise: the first failure ends it.\<close>

fun try_map :: "('a \<Rightarrow> exn + 'b) \<Rightarrow> 'a list \<Rightarrow> exn + 'b list" where
  "try_map f [] = Inr []"
| "try_map f (x # xs) =
     (case f x of
        Inl e \<Rightarrow> Inl e
      | Inr y \<Rightarrow> (case try_map f xs of Inl e \<Rightarrow> Inl e | Inr ys \<Rightarrow> Inr (y # ys)))"

text \<open>\<open>f"\n  Table: {table_name}\n" + "\n".join(column_details)\<close>, used by all three dialects.\<close>

definition table_section :: "sqlval \<Rightarrow> string list \<Rightarrow> string" where
  "table_section table_name column_details =
     ''\<newline>  Table: '' @ py_str table_name @ ''\<newline>'' @ join ''\<newline>'' column_details"

subsection \<open>SQLite\<close>

definition sqlite_tables_sql :: string where
  "sqlite_tables_sql =
     ''SELECT name FROM sqlite_master WHERE type='table' AND name NOT LIKE 'sqlite_%';''"

definition sqlite_pragma_sql :: "sqlval \<Rightarrow> string" where
  "sqlite_pragma_sql table_name =
     ''PRAGMA table_info('' @ [CHR 0x27] @ py_str table_name @ [CHR 0x27] @ '');''"

text \<open>\<open>f"    - {col[1]} ({col[2]})"\<close>\<close>

definition sqlite_column_detail :: "row \<Rightarrow> exn + string" where
  "sqlite_column_detail col =
     (case py_index col 1 of
        Inl e \<Rightarrow> Inl e
      | Inr a \<Rightarrow>
          (case py_index col 2 of
             Inl e \<Rightarrow> Inl e
           | Inr b \<Rightarrow> Inr (''    - '' @ py_str a @ '' ('' @ py_str b @ '')'')))"

fun sqlite_tables_loop ::
  "'w driver \<Rightarrow> cur \<Rightarrow> row list \<Rightarrow> string list \<Rightarrow> 'w \<Rightarrow> (exn + string list) \<times> 'w" where
  "sqlite_tables_loop drv cu [] schema_parts w = (Inr schema_parts, w)"
| "sqlite_tables_loop drv cu (table # tables) schema_parts w =
     (case py_index table 0 of
        Inl e \<Rightarrow> (Inl e, w)
      | Inr table_name \<Rightarrow>
          (case execute_fetchall drv cu (sqlite_pragma_sql table_name) w of
             (Inl e, w1) \<Rightarrow> (Inl e, w1)
           | (Inr columns, w1) \<Rightarrow>
               (case try_map sqlite_column_detail columns of
                  Inl e \<Rightarrow> (Inl e, w1)
                | Inr column_details \<Rightarrow>
                    sqlite_tables_loop drv cu tables
                      (schema_parts @ [table_section table_name column_details]) w1)))"

text \<open>\<open>_get_sqlite_schema\<close>\<close>

definition get_sqlite_schema :: "'w driver \<Rightarrow> cur \<Rightarrow> 'w \<Rightarrow> (exn + string) \<times> 'w" where
  "get_sqlite_schema drv cu w =
     (case execute_fetchall drv cu sqlite_tables_sql w of
        (Inl e, w1) \<Rightarrow> (Inl e, w1)
      | (Inr tables, w1) \<Rightarrow>
          (case sqlite_tables_loop drv cu tables [] w1 of
             (Inl e, w2) \<Rightarrow> (Inl e, w2)
           | (Inr schema_parts, w2) \<Rightarrow> (Inr (join ''\<newline>'' schema_parts), w2)))"

subsection \<open>PostgreSQL\<close>

definition postgres_columns_sql :: string where
  "postgres_columns_sql =
     ''\<newline>'' @
      ''            SELECT \<newline>'' @
      ''                t.table_name,\<newline>'' @
      ''                c.column_name,\<newline>'' @
      ''                c.data_type,\<newline>'' @
      ''                c.column_default,\<newline>'' @
      ''                c.is_nullable\<newline>'' @
      ''            FROM \<newline>'' @
      ''                information_schema.tables t\<newline>'' @
      ''                JOIN information_schema.columns c ON t.table_name = c.table_name\<newline>'' @
      ''            WHERE \<newline>'' @
      ''                t.table_schema = 'public'\<newline>'' @
      ''                AND t.table_type = 'BASE TABLE'\<newline>'' @
      ''            ORDER BY \<newline>'' @
      ''                t.table_name,\<newline>'' @
      ''                c.ordinal_position;\<newline>'' @
      ''        ''"

text \<open>
  Unpacking a row into a fixed number of names raises \<open>ValueError\<close> on any other length
  (the text is CPython's up to 3.13).
\<close>

definition unpack_error :: "nat \<Rightarrow> nat \<Rightarrow> exn" where
  "unpack_error expected got =
     (if got < expected then
        Exn ValueError (''not enough values to unpack (expected '' @ str_nat expected
          @ '', got '' @ str_nat got @ '')'')
      else Exn ValueError (''too many values to unpack (expected '' @ str_nat expected @ '')''))"

definition unpack5 :: "row \<Rightarrow> exn + (sqlval \<times> sqlval \<times> sqlval \<times> sqlval \<times> sqlval)" where
  "unpack5 r =
     (case r of
        [a, b, c, d, e] \<Rightarrow> Inr (a, b, c, d, e)
      | _ \<Rightarrow> Inl (unpack_error 5 (length r)))"

text \<open>
  The body of the \<open>for row in cursor.fetchall()\<close> loop on the loop state
  \<open>(schema_parts, current_table, column_details)\<close>; \<open>current_table\<close> starts as \<open>None\<close>.
\<close>

definition postgres_row_step ::
  "row \<Rightarrow> string list \<times> sqlval \<times> string list \<Rightarrow> exn + (string list \<times> sqlval \<times> string list)" where
  "postgres_row_step r st =
     (case st of (schema_parts, current_table, column_details) \<Rightarrow>
        (case unpack5 r of
           Inl e \<Rightarrow> Inl e
         | Inr (table_name, column_name, data_type, default_v, nullable) \<Rightarrow>
             (let (schema_parts1, current_table1, column_details1) =
                    (if current_table \<noteq> table_name then
                       ((if current_table \<noteq> SNull
                         then schema_parts @ [table_section current_table column_details]
                         else schema_parts),
                        table_name, [])
                     else (schema_parts, current_table, column_details));
                  nullable_str = (if nullable = SText ''YES'' then ''NULL'' else ''NOT NULL'');
                  default_str = (if py_bool default_v then '' DEFAULT '' @ py_str default_v else [])
              in Inr (schema_parts1, current_table1,
                      column_details1 @
                        [''    - '' @ py_str column_name @ '' ('' @ py_str data_type @ '' ''
                           @ nullable_str @ default_str @ '')'']))))"

fun postgres_rows_loop ::
  "row list \<Rightarrow> string list \<times> sqlval \<times> string list \<Rightarrow> exn + (string list \<times> sqlval \<times> string list)" where
  "postgres_rows_loop [] st = Inr st"
| "postgres_rows_loop (r # rows) st =
     (case postgres_row_step r st of
        Inl e \<Rightarrow> Inl e
      | Inr st1 \<Rightarrow> postgres_rows_loop rows st1)"

text \<open>
  After the loop: the section of the last table is appended, unless no row set
  \<open>current_table\<close>.
\<close>

definition postgres_after_loop :: "string list \<times> sqlval \<times> string list \<Rightarrow> string list" where
  "postgres_after_loop st =
     (case st of (schema_parts, current_table, column_details) \<Rightarrow>
        (if current_table \<noteq> SNull
         then schema_parts @ [table_section current_table column_details]
         else schema_parts))"

text \<open>The loop and what follows it, on the rows that \<open>fetchall\<close> returned.\<close>

definition postgres_schema_of_rows :: "row list \<Rightarrow> exn + string" where
  "postgres_schema_of_rows rows =
     (case postgres_rows_loop rows ([], SNull, []) of
        Inl e \<Rightarrow> Inl e
      | Inr st \<Rightarrow> Inr (join ''\<newline>'' (postgres_after_loop st)))"

text \<open>\<open>_get_postgres_schema\<close>\<close>

definition get_postgres_schema :: "'w driver \<Rightarrow> cur \<Rightarrow> 'w \<Rightarrow> (exn + string) \<times> 'w" where
  "get_postgres_schema drv cu w =
     (case execute_fetchall drv cu postgres_columns_sql w of
        (Inl e, w1) \<Rightarrow> (Inl e, w1)
      | (Inr rows, w1) \<Rightarrow> (postgres_schema_of_rows rows, w1))"

subsection \<open>MySQL\<close>

definition mysql_describe_sql :: "sqlval \<Rightarrow> string" where
  "mysql_describe_sql table_name = ''DESCRIBE `'' @ py_str table_name @ ''`;''"

definition unpack6 ::
  "row \<Rightarrow> exn + (sqlval \<times> sqlval \<times> sqlval \<times> sqlval \<times> sqlval \<times> sqlval)" where
  "unpack6 r =
     (case r of
        [a, b, c, d, e, f] \<Rightarrow> Inr (a, b, c, d, e, f)
      | _ \<Rightarrow> Inl (unpack_error 6 (length r)))"

definition mysql_column_detail :: "row \<Rightarrow> exn + string" where
  "mysql_column_detail col =
     (case unpack6 col of
        Inl e \<Rightarrow> Inl e
      | Inr (field, type_, null_v, key, default_v, extra) \<Rightarrow>
          (let nullable = (if null_v = SText ''YES'' then ''NULL'' else ''NOT NULL'');
               default_str = (if py_bool default_v then '' DEFAULT '' @ py_str default_v else []);
               key_str = (if py_bool key then '' '' @ py_str key else []);
               extra_str = (if py_bool extra then '' '' @ py_str extra else [])
           in Inr (''    - '' @ py_str field @ '' ('' @ py_str type_ @ '' '' @ nullable
                     @ default_str @ key_str @ extra_str @ '')'')))"

fun mysql_tables_loop ::
  "'w driver \<Rightarrow> cur \<Rightarrow> row list \<Rightarrow> string list \<Rightarrow> 'w \<Rightarrow> (exn + string list) \<times> 'w" where
  "mysql_tables_loop drv cu [] schema_parts w = (Inr schema_parts, w)"
| "mysql_tables_loop drv cu (table # tables) schema_parts w =
     (case py_index table 0 of
        Inl e \<Rightarrow> (Inl e, w)
      | Inr table_name \<Rightarrow>
          (case execute_fetchall drv cu (mysql_describe_sql table_name) w of
             (Inl e, w1) \<Rightarrow> (Inl e, w1)
           | (Inr columns, w1) \<Rightarrow>
               (case try_map mysql_column_detail columns of
                  Inl e \<Rightarrow> (Inl e, w1)
                | Inr column_details \<Rightarrow>
                    mysql_tables_loop drv cu tables
                      (schema_parts @ [table_section table_name column_details]) w1)))"

text \<open>\<open>_get_mysql_schema\<close>\<close>

definition get_mysql_schema :: "'w driver \<Rightarrow> cur \<Rightarrow> 'w \<Rightarrow> (exn + string) \<times> 'w" where
  "get_mysql_schema drv cu w =
     (case execute_fetchall drv cu ''SHOW TABLES;'' w of
        (Inl e, w1) \<Rightarrow> (Inl e, w1)
      | (Inr tables, w1) \<Rightarrow>
          (case mysql_tables_loop drv cu tables [] w1 of
             (Inl e, w2) \<Rightarrow> (Inl e, w2)
           | (Inr schema_parts, w2) \<Rightarrow> (Inr (join ''\<newline>'' schema_parts), w2)))"

subsection \<open>get\_schema and execute\_query\<close>

text \<open>
  The dict that \<open>get_schema\<close> returns: \<open>{'success': True, 'schema': s}\<close> or
  \<open>{'success': False, 'message': m}\<close>.
\<close>

datatype schema_result = Success string | Failure string

text \<open>The body of the \<open>with\<close> statement of \<open>get_schema\<close>.\<close>

definition get_schema_body ::
  "'w driver \<Rightarrow> db_config \<Rightarrow> conn option \<Rightarrow> 'w \<Rightarrow> (exn + string) \<times> 'w" where
  "get_schema_body drv d conn w =
     (case conn of
        None \<Rightarrow> (Inl (none_attr_error ''cursor''), w)
      | Some c \<Rightarrow>
          (case conn_cursor drv c w of
             (Inl e, w1) \<Rightarrow> (Inl e, w1)
           | (Inr cu, w1) \<Rightarrow>
               (if db_type d = ''SQLite'' then get_sqlite_schema drv cu w1
                else if db_type d = ''PostgreSQL'' then get_postgres_schema drv cu w1
                else if db_type d = ''MySQL'' then get_mysql_schema drv cu w1
                else (Inl (Exn ValueError (''Unsupported database type: '' @ db_type d)), w1))))"

definition get_schema :: "'w driver \<Rightarrow> db_config \<Rightarrow> 'w manager \<Rightarrow> schema_result \<times> 'w manager" where
  "get_schema drv d s =
     (case get_connection drv d (get_schema_body drv d) s of
        (Inr schema, s1) \<Rightarrow> (Success schema, s1)
      | (Inl e, s1) \<Rightarrow> (Failure (''Failed to get schema: '' @ exn_str e), s1))"

text \<open>\<open>pd.DataFrame(rows, columns=columns)\<close>: the rows paired with the column names.\<close>

datatype dataframe = DataFrame (df_rows: "row list") (df_columns: "string list")

definition not_iterable_error :: exn where
  "not_iterable_error = Exn TypeError (CHR 0x27 # ''NoneType' object is not iterable'')"

definition execute_query_body ::
  "'w driver \<Rightarrow> string \<Rightarrow> conn option \<Rightarrow> 'w \<Rightarrow> (exn + dataframe option) \<times> 'w" where
  "execute_query_body drv sql_query conn w =
     (case conn of
        None \<Rightarrow> (Inl (none_attr_error ''cursor''), w)
      | Some c \<Rightarrow>
          (case conn_cursor drv c w of
             (Inl e, w1) \<Rightarrow> (Inl e, w1)
           | (Inr cu, w1) \<Rightarrow>
               (case cur_execute drv cu sql_query w1 of
                  (Some e, w2) \<Rightarrow> (Inl e, w2)
                | (None, w2) \<Rightarrow>
                    (if cur_truthy drv cu then
                       (case cur_description drv cu w2 of
                          None \<Rightarrow> (Inl not_iterable_error, w2)
                        | Some columns \<Rightarrow>
                            (case cur_fetchall drv cu w2 of
                               (Inl e, w3) \<Rightarrow> (Inl e, w3)
                             | (Inr rows, w3) \<Rightarrow>
                                 (if rows \<noteq> [] then (Inr (Some (DataFrame rows columns)), w3)
                                  else (Inr None, w3))))
                     else (Inr None, w2)))))"

definition execute_query ::
  "'w driver \<Rightarrow> string \<Rightarrow> db_config \<Rightarrow> 'w manager \<Rightarrow> (exn + dataframe option) \<times> 'w manager" where
  "execute_query drv sql_query d s =
     (case get_connection drv d (execute_query_body drv sql_query) s of
        (Inl e, s1) \<Rightarrow> (Inl (Exn PlainException (''Query execution failed: '' @ exn_str e)), s1)
      | (Inr r, s1) \<Rightarrow> (Inr r, s1))"

section \<open>fast\_api.py: the single-file variant of the manager\<close>

text \<open>
  Its \<open>get_connection\<close> has the same code up to the \<open>yield\<close> (\<open>gc_enter\<close>); its handler
  re-raises the exception as it is and its \<open>finally\<close> does nothing.
\<close>

definition fa_get_connection ::
  "'w driver \<Rightarrow> db_config \<Rightarrow> (conn option \<Rightarrow> 'w \<Rightarrow> (exn + 'a) \<times> 'w) \<Rightarrow> 'w manager
     \<Rightarrow> (exn + 'a) \<times> 'w manager" where
  "fa_get_connection drv d body s =
     (case gc_enter drv d s of
        (Inl e, s1) \<Rightarrow> (Inl e, s1)
      | (Inr c, s1) \<Rightarrow> (case body c (world s1) of (r, w) \<Rightarrow> (r, s1\<lparr>world := w\<rparr>)))"

text \<open>\<open>f"    - {col[i]} ({col[j]})"\<close>\<close>

definition fa_column_info :: "nat \<Rightarrow> nat \<Rightarrow> row \<Rightarrow> exn + string" where
  "fa_column_info i j col =
     (case py_index col i of
        Inl e \<Rightarrow> Inl e
      | Inr a \<Rightarrow>
          (case py_index col j of
             Inl e \<Rightarrow> Inl e
           | Inr b \<Rightarrow> Inr (''    - '' @ py_str a @ '' ('' @ py_str b @ '')'')))"

text \<open>\<open>_format_table_schema\<close>\<close>

definition fa_format_table_schema :: "sqlval \<Rightarrow> row list \<Rightarrow> string \<Rightarrow> exn + string" where
  "fa_format_table_schema table_name columns kind =
     (case (if kind = ''sqlite'' then try_map (fa_column_info 1 2) columns
            else if kind = ''mysql'' then try_map (fa_column_info 0 1) columns
            else try_map (fa_column_info 1 2) columns)
      of Inl e \<Rightarrow> Inl e
       | Inr columns_info \<Rightarrow> Inr (table_section table_name columns_info))"

definition fa_sqlite_tables_sql :: string where
  "fa_sqlite_tables_sql = ''SELECT name FROM sqlite_master WHERE type='table';''"

definition fa_sqlite_pragma_sql :: "sqlval \<Rightarrow> string" where
  "fa_sqlite_pragma_sql table_name = ''PRAGMA table_info('' @ py_str table_name @ '');''"

definition fa_mysql_columns_sql :: "sqlval \<Rightarrow> string" where
  "fa_mysql_columns_sql table_name = ''SHOW COLUMNS FROM '' @ py_str table_name @ '';''"

definition fa_postgres_columns_sql :: string where
  "fa_postgres_columns_sql =
     ''\<newline>'' @
      ''                    SELECT table_name, column_name, data_type\<newline>'' @
      ''                    FROM information_schema.columns\<newline>'' @
      ''                    WHERE table_schema = 'public'\<newline>'' @
      ''                    ORDER BY table_name, ordinal_position;\<newline>'' @
      ''                ''"

text \<open>
  The two \<open>for table in tables\<close> loops of \<open>_get_schema_details\<close>: they differ in the
  statement sent for a table and in the format kind.
\<close>

fun fa_tables_loop ::
  "'w driver \<Rightarrow> cur \<Rightarrow> (sqlval \<Rightarrow> string) \<Rightarrow> string \<Rightarrow> row list \<Rightarrow> string list \<Rightarrow> 'w
     \<Rightarrow> (exn + string list) \<times> 'w" where
  "fa_tables_loop drv cu stmt kind [] schema w = (Inr schema, w)"
| "fa_tables_loop drv cu stmt kind (table # tables) schema w =
     (case py_index table 0 of
        Inl e \<Rightarrow> (Inl e, w)
      | Inr table_name \<Rightarrow>
          (case execute_fetchall drv cu (stmt table_name) w of
             (Inl e, w1) \<Rightarrow> (Inl e, w1)
           | (Inr columns, w1) \<Rightarrow>
               (case fa_format_table_schema table_name columns kind of
                  Inl e \<Rightarrow> (Inl e, w1)
                | Inr part \<Rightarrow> fa_tables_loop drv cu stmt kind tables (schema @ [part]) w1)))"

definition unpack3 :: "row \<Rightarrow> exn + (sqlval \<times> sqlval \<times> sqlval)" where
  "unpack3 r =
     (case r of
        [a, b, c] \<Rightarrow> Inr (a, b, c)
      | _ \<Rightarrow> Inl (unpack_error 3 (length r)))"

text \<open>
  \<open>_format_postgres_schema\<close>: the dict \<open>table_columns\<close> is an association list in
  insertion order, which is the order \<open>items()\<close> gives.
\<close>

fun dict_append :: "sqlval \<Rightarrow> string \<Rightarrow> (sqlval \<times> string list) list \<Rightarrow> (sqlval \<times> string list) list" where
  "dict_append k v [] = [(k, [v])]"
| "dict_append k v ((k1, vs) # rest) =
     (if k1 = k then (k1, vs @ [v]) # rest else (k1, vs) # dict_append k v rest)"

fun fa_postgres_group ::
  "row list \<Rightarrow> (sqlval \<times> string list) list \<Rightarrow> exn + (sqlval \<times> string list) list" where
  "fa_postgres_group [] table_columns = Inr table_columns"
| "fa_postgres_group (r # rows) table_columns =
     (case unpack3 r of
        Inl e \<Rightarrow> Inl e
      | Inr (table_name, column_name, data_type) \<Rightarrow>
          fa_postgres_group rows
            (dict_append table_name
               (''    - '' @ py_str column_name @ '' ('' @ py_str data_type @ '')'') table_columns))"

definition fa_format_postgres_schema :: "row list \<Rightarrow> exn + string list" where
  "fa_format_postgres_schema schema_data =
     (case fa_postgres_group schema_data [] of
        Inl e \<Rightarrow> Inl e
      | Inr table_columns \<Rightarrow>
          Inr (map (\<lambda>(table_name, columns). table_section table_name columns) table_columns))"

text \<open>The \<open>try\<close> block of \<open>_get_schema_details\<close>.\<close>

definition fa_schema_details_try ::
  "'w driver \<Rightarrow> cur \<Rightarrow> string \<Rightarrow> 'w \<Rightarrow> (exn + string) \<times> 'w" where
  "fa_schema_details_try drv cu dbt w =
     (case (if dbt = ''SQLite'' then
              (case execute_fetchall drv cu fa_sqlite_tables_sql w of
                 (Inl e, w1) \<Rightarrow> (Inl e, w1)
               | (Inr tables, w1) \<Rightarrow>
                   fa_tables_loop drv cu fa_sqlite_pragma_sql ''sqlite'' tables [] w1)
            else if dbt = ''PostgreSQL'' then
              (case execute_fetchall drv cu fa_postgres_columns_sql w of
                 (Inl e, w1) \<Rightarrow> (Inl e, w1)
               | (Inr schema_data, w1) \<Rightarrow> (fa_format_postgres_schema schema_data, w1))
            else if dbt = ''MySQL'' then
              (case execute_fetchall drv cu ''SHOW TABLES;'' w of
                 (Inl e, w1) \<Rightarrow> (Inl e, w1)
               | (Inr tables, w1) \<Rightarrow>
                   fa_tables_loop drv cu fa_mysql_columns_sql ''mysql'' tables [] w1)
            else (Inr [], w))
      of (Inl e, w2) \<Rightarrow> (Inl e, w2)
       | (Inr schema, w2) \<Rightarrow> (Inr (join ''\<newline>'' schema), w2))"

text \<open>\<open>_get_schema_details\<close>: every exception is raised again as a plain \<open>Exception\<close>.\<close>

definition fa_get_schema_details ::
  "'w driver \<Rightarrow> cur \<Rightarrow> string \<Rightarrow> 'w \<Rightarrow> (exn + string) \<times> 'w" where
  "fa_get_schema_details drv cu dbt w =
     (case fa_schema_details_try drv cu dbt w of
        (Inl e, w1) \<Rightarrow>
          (Inl (Exn PlainException (''Error fetching schema details: '' @ exn_str e)), w1)
      | (Inr schema, w1) \<Rightarrow> (Inr schema, w1))"

section \<open>Query\_Generator.py\<close>

text \<open>
  The \<open>schema\<close> argument is a dict with string keys or any other value; the values that
  occur are \<open>None\<close>, booleans and strings.
\<close>

datatype pyval = PNone | PBool bool | PStr string

fun pyval_str :: "pyval \<Rightarrow> string" where
  "pyval_str PNone = ''None''"
| "pyval_str (PBool b) = (if b then ''True'' else ''False'')"
| "pyval_str (PStr s) = s"

datatype schema_arg = SchemaDict "string \<rightharpoonup> pyval" | SchemaValue pyval

text \<open>\<open>schema.get('schema', '') if isinstance(schema, dict) else schema\<close>\<close>

fun schema_str :: "schema_arg \<Rightarrow> pyval" where
  "schema_str (SchemaDict m) = (case m ''schema'' of None \<Rightarrow> PStr [] | Some v \<Rightarrow> v)"
| "schema_str (SchemaValue v) = v"

definition prompt_head :: string where
  "prompt_head =
     ''\<newline>'' @
      ''        You are an expert SQL assistant. You will help users write SQL queries that are efficient, secure and follow best practices.\<newline>'' @
      ''\<newline>'' @
      ''        Database Schema:\<newline>'' @
      ''        ''"

definition prompt_tail :: string where
  "prompt_tail =
     ''\<newline>'' @
      ''\<newline>'' @
      ''        Rules to follow:\<newline>'' @
      ''        1. Only write standardized SQL that works across major databases\<newline>'' @
      ''        2. Convert English questions into SQL queries based on the above schema\<newline>'' @
      ''        3. Add proper indexing suggestions when relevant\<newline>'' @
      ''        4. Use clear aliases and formatting\<newline>'' @
      ''        5. Consider performance implications\<newline>'' @
      ''        6. Avoid SQL injection risks\<newline>'' @
      ''        7. Include error handling where needed\<newline>'' @
      ''        8. SQL code should not have any syntax errors\<newline>'' @
      ''        9. Do not begin or end with any ``` or any other special characters\<newline>'' @
      ''        10. Only use tables and columns that exist in the schema above\<newline>'' @
      ''\<newline>'' @
      ''        Important note: Don't mention sql in your response, provide only the SQL query\<newline>'' @
      ''\<newline>'' @
      ''        Please provide only the SQL query without any explanations unless specifically asked for details.\<newline>'' @
      ''        ''"

text \<open>\<open>_get_prompt_template\<close>: the f-string with its one field \<open>{schema}\<close>.\<close>

definition get_prompt_template :: "pyval \<Rightarrow> string" where
  "get_prompt_template schema = prompt_head @ pyval_str schema @ prompt_tail"

text \<open>
  \<open>generate_query\<close>. The model client is the parameter \<open>generate_content\<close>: the text of
  the response to a prompt, or the exception that the call or \<open>response.text\<close> raises.
\<close>

definition generate_query :: "(string \<Rightarrow> exn + string) \<Rightarrow> string \<Rightarrow> schema_arg \<Rightarrow> exn + string" where
  "generate_query generate_content question schema =
     (let schema_s = schema_str schema;
          prompt = get_prompt_template schema_s
      in generate_content (prompt @ ''\<newline>\<newline>User Question: '' @ question))"

section \<open>api.py: the /get\_schema endpoint\<close>

datatype http_exception = HTTPException (status_code: nat) (detail: string)

text \<open>
  The handler. \<open>HTTPException\<close> derives from \<open>Exception\<close>, so the handler's own
  \<open>except Exception as e\<close> catches it; \<open>http_str\<close> is the framework's \<open>str(e)\<close> for an
  \<open>HTTPException\<close> with the given status code and detail. \<open>get_schema\<close> raises nothing.
\<close>

definition api_get_schema ::
  "(nat \<Rightarrow> string \<Rightarrow> string) \<Rightarrow> 'w driver \<Rightarrow> db_config \<Rightarrow> 'w manager
     \<Rightarrow> (http_exception + schema_result) \<times> 'w manager" where
  "api_get_schema http_str drv db_data s =
     (case get_schema drv db_data s of (schema_result, s1) \<Rightarrow>
        (case (case schema_result of
                 Failure message \<Rightarrow> Inl (HTTPException 400 message)
               | Success schema \<Rightarrow> Inr schema_result)
         of Inl e \<Rightarrow>
              (Inl (HTTPException 500
                      (''Failed to retrieve schema: '' @ http_str (status_code e) (detail e))), s1)
          | Inr r \<Rightarrow> (Inr r, s1)))"

section \<open>Sequences of manager operations\<close>

text \<open>
  The three operations of \<open>DatabaseManager\<close>, as the endpoints call them on the one
  module-level manager, and the state after a sequence of them.
\<close>

datatype 'w op =
  WithConnection db_config "conn option \<Rightarrow> 'w \<Rightarrow> (exn + unit) \<times> 'w"
  | GetSchema db_config
  | ExecuteQuery string db_config

fun step :: "'w driver \<Rightarrow> 'w op \<Rightarrow> 'w manager \<Rightarrow> 'w manager" where
  "step drv (WithConnection d body) s = snd (get_connection drv d body s)"
| "step drv (GetSchema d) s = snd (get_schema drv d s)"
| "step drv (ExecuteQuery q d) s = snd (execute_query drv q d s)"

fun run :: "'w driver \<Rightarrow> 'w op list \<Rightarrow> 'w manager \<Rightarrow> 'w manager" where
  "run drv [] s = s"
| "run drv (x # xs) s = run drv xs (step drv x s)"

section \<open>What the PostgreSQL inspector is to produce\<close>

text \<open>
  A row of the catalog query, as PostgreSQL gives it: table name, column name and data
  type are text, the default is text or NULL, \<open>is_nullable\<close> is \<open>YES\<close> or \<open>NO\<close>.
\<close>

record pg_catalog_row =
  pg_table :: string
  pg_column :: string
  pg_data_type :: string
  pg_default :: "string option"
  pg_is_nullable :: string

definition pg_row :: "pg_catalog_row \<Rightarrow> row" where
  "pg_row c =
     [SText (pg_table c), SText (pg_column c), SText (pg_data_type c),
      (case pg_default c of None \<Rightarrow> SNull | Some d \<Rightarrow> SText d), SText (pg_is_nullable c)]"

text \<open>The distinct elements of a list in the order of their first appearance.\<close>

fun first_appearances :: "'a list \<Rightarrow> 'a list" where
  "first_appearances [] = []"
| "first_appearances (x # xs) = x # filter (\<lambda>y. y \<noteq> x) (first_appearances xs)"

text \<open>Equal elements are adjacent, which every ordering by table name ensures.\<close>

fun grouped :: "'a list \<Rightarrow> bool" where
  "grouped [] = True"
| "grouped (x # xs) = (x \<notin> set (dropWhile (\<lambda>y. y = x) xs) \<and> grouped xs)"

text \<open>
  The text block in the words of the specification: one section per distinct table, in
  the order of first appearance, with the table's columns in input order; a column shows
  its data type, NULL or NOT NULL, and a DEFAULT clause when the default is not empty.
\<close>

definition spec_column_line :: "pg_catalog_row \<Rightarrow> string" where
  "spec_column_line c =
     ''    - '' @ pg_column c @ '' ('' @ pg_data_type c @ '' ''
       @ (if pg_is_nullable c = ''YES'' then ''NULL'' else ''NOT NULL'')
       @ (case pg_default c of
            None \<Rightarrow> []
          | Some d \<Rightarrow> (if d = [] then [] else '' DEFAULT '' @ d))
       @ '')''"

definition spec_table_section :: "pg_catalog_row list \<Rightarrow> string \<Rightarrow> string" where
  "spec_table_section cs t =
     ''\<newline>  Table: '' @ t @ ''\<newline>''
       @ join ''\<newline>'' (map spec_column_line (filter (\<lambda>c. pg_table c = t) cs))"

definition spec_postgres_schema :: "pg_catalog_row list \<Rightarrow> string" where
  "spec_postgres_schema cs =
     join ''\<newline>'' (map (spec_table_section cs) (first_appearances (map pg_table cs)))"

section \<open>A small driver for concrete runs\<close>

text \<open>
  An in-memory stand-in for the drivers. It answers the SQLite statements used below the
  way a file \<open>shop.db\<close> with the one table \<open>users(id INTEGER, name TEXT)\<close> does; with
  \<open>autoinc\<close> the table was created with AUTOINCREMENT, so SQLite keeps its internal table
  \<open>sqlite_sequence(name, seq)\<close> in \<open>sqlite_master\<close> as well. It answers the PostgreSQL
  catalog statement the way a server with the tables \<open>customers\<close> and \<open>orders\<close> does; the
  server accepts the password \<open>secret\<close>. There is no MySQL server.
\<close>

definition demo_pg_catalog :: "pg_catalog_row list" where
  "demo_pg_catalog =
     [\<lparr>pg_table = ''customers'', pg_column = ''id'', pg_data_type = ''integer'',
       pg_default = Some ''nextval('customers_id_seq'::regclass)'', pg_is_nullable = ''NO''\<rparr>,
      \<lparr>pg_table = ''customers'', pg_column = ''name'', pg_data_type = ''text'',
       pg_default = None, pg_is_nullable = ''YES''\<rparr>,
      \<lparr>pg_table = ''orders'', pg_column = ''id'', pg_data_type = ''integer'',
       pg_default = None, pg_is_nullable = ''NO''\<rparr>]"

record demo_world =
  opened :: nat
  result_set :: "row list"
  result_columns :: "string list option"

definition demo_table_info_columns :: "string list" where
  "demo_table_info_columns = [''cid'', ''name'', ''type'', ''notnull'', ''dflt_value'', ''pk'']"

definition demo_answer :: "bool \<Rightarrow> string \<Rightarrow> exn + (string list \<times> row list)" where
  "demo_answer autoinc sql =
     (if sql = sqlite_tables_sql then Inr ([''name''], [[SText ''users'']])
      else if sql = fa_sqlite_tables_sql then
        Inr ([''name''], [SText ''users''] # (if autoinc then [[SText ''sqlite_sequence'']] else []))
      else if sql = sqlite_pragma_sql (SText ''users'') \<or> sql = fa_sqlite_pragma_sql (SText ''users'') then
        Inr (demo_table_info_columns,
             [[SInt 0, SText ''id'', SText ''INTEGER'', SInt 0, SNull, SInt 1],
              [SInt 1, SText ''name'', SText ''TEXT'', SInt 0, SNull, SInt 0]])
      else if sql = sqlite_pragma_sql (SText ''sqlite_sequence'')
             \<or> sql = fa_sqlite_pragma_sql (SText ''sqlite_sequence'') then
        Inr (demo_table_info_columns,
             (if autoinc then
                [[SInt 0, SText ''name'', SText [], SInt 0, SNull, SInt 0],
                 [SInt 1, SText ''seq'', SText [], SInt 0, SNull, SInt 0]]
              else []))
      else if sql = postgres_columns_sql then
        Inr ([''table_name'', ''column_name'', ''data_type'', ''column_default'', ''is_nullable''],
             map pg_row demo_pg_catalog)
      else if sql = ''SELECT name FROM users;'' then
        Inr ([''name''], [[SText ''ada''], [SText ''grace'']])
      else if sql = ''SELECT name FROM users WHERE id < 0;'' then Inr ([''name''], [])
      else Inl (Exn DriverError ''syntax error''))"

definition demo_open :: "demo_world \<Rightarrow> (exn + conn) \<times> demo_world" where
  "demo_open w = (Inr (opened w), w\<lparr>opened := Suc (opened w)\<rparr>)"

definition demo_driver :: "bool \<Rightarrow> demo_world driver" where
  "demo_driver autoinc =
     \<lparr>sqlite3_connect =
        (\<lambda>name w. if name = ''shop.db'' then demo_open w
                   else (Inl (Exn DriverError ''unable to open database file''), w)),
      psycopg2_connect =
        (\<lambda>host database user password port w.
           if password = Some ''secret'' then demo_open w
           else (Inl (Exn DriverError ''password authentication failed''), w)),
      mysql_connect =
        (\<lambda>host database user password port w.
           (Inl (Exn DriverError ''Can't connect to MySQL server''), w)),
      conn_commit = (\<lambda>c w. (None, w)),
      conn_cursor = (\<lambda>c w. (Inr c, w)),
      cur_execute =
        (\<lambda>cu sql w.
           case demo_answer autoinc sql of
             Inl e \<Rightarrow> (Some e, w)
           | Inr (cols, rows) \<Rightarrow> (None, w\<lparr>result_set := rows, result_columns := Some cols\<rparr>)),
      cur_fetchall = (\<lambda>cu w. (Inr (result_set w), w\<lparr>result_set := []\<rparr>)),
      cur_description = (\<lambda>cu w. result_columns w),
      cur_truthy = (\<lambda>cu. True)\<rparr>"

definition demo_world0 :: demo_world where
  "demo_world0 = \<lparr>opened = 0, result_set = [], result_columns = None\<rparr>"

text \<open>The manager as \<open>DatabaseManager()\<close> leaves it: no connection cached.\<close>

definition new_manager :: "'w \<Rightarrow> 'w manager" where
  "new_manager w = \<lparr>connections = Map.empty, world = w\<rparr>"

definition sqlite_cfg :: "string \<Rightarrow> db_config" where
  "sqlite_cfg name =
     \<lparr>db_type = ''SQLite'', db_host = None, db_port = None, db_name = name,
      db_user = None, db_password = None\<rparr>"

definition postgres_cfg :: "string \<Rightarrow> string \<Rightarrow> string \<Rightarrow> db_config" where
  "postgres_cfg user password port =
     \<lparr>db_type = ''PostgreSQL'', db_host = Some ''db.example.org'', db_port = Some port,
      db_name = ''shop'', db_user = Some user, db_password = Some password\<rparr>"

definition oracle_cfg :: db_config where
  "oracle_cfg =
     \<lparr>db_type = ''Oracle'', db_host = Some ''db.example.org'', db_port = Some ''1521'',
      db_name = ''shop'', db_user = Some ''scott'', db_password = Some ''tiger''\<rparr>"

text \<open>
  Two PostgreSQL configurations that differ only in database name and host, and a
  \<open>with\<close> body that returns the connection it is given.
\<close>

definition postgres_db :: "string \<Rightarrow> string \<Rightarrow> db_config" where
  "postgres_db name host =
     \<lparr>db_type = ''PostgreSQL'', db_host = Some host, db_port = Some ''5432'',
      db_name = name, db_user = Some ''alice'', db_password = Some ''secret''\<rparr>"

definition return_conn :: "conn option \<Rightarrow> 'w \<Rightarrow> (exn + conn option) \<times> 'w" where
  "return_conn c w = (Inr c, w)"

section \<open>Properties\<close>

subsection \<open>The connection cache\<close>

lemma gc_enter_cached:
  "connections s (conn_key d) = Some c \<Longrightarrow> gc_enter drv d s = (Inr c, s)"
  by (simp add: gc_enter_def)

lemma gc_enter_keeps:
  "gc_enter drv d s = (r, s1) \<Longrightarrow> connections s k = Some v \<Longrightarrow> connections s1 k = Some v"
  by (auto simp: gc_enter_def split: option.splits prod.splits sum.splits)

lemma gc_finally_connections:
  "gc_finally drv d s = (r, s1) \<Longrightarrow> connections s1 = connections s"
  by (auto simp: gc_finally_def split: option.splits prod.splits if_splits)

lemma get_connection_keeps:
  assumes "connections s k = Some v"
  shows "connections (snd (get_connection drv d body s)) k = Some v"
proof -
  obtain r1 s1 where e: "gc_enter drv d s = (r1, s1)" by (cases "gc_enter drv d s")
  from gc_enter_keeps [OF e assms] have k1: "connections s1 k = Some v" .
  show ?thesis
    using k1 e
    by (auto simp: get_connection_def split: sum.splits prod.splits option.splits
             dest!: gc_finally_connections)
qed

lemma fa_get_connection_keeps:
  assumes "connections s k = Some v"
  shows "connections (snd (fa_get_connection drv d body s)) k = Some v"
proof -
  obtain r1 s1 where e: "gc_enter drv d s = (r1, s1)" by (cases "gc_enter drv d s")
  from gc_enter_keeps [OF e assms] have k1: "connections s1 k = Some v" .
  show ?thesis
    using k1 e
    by (auto simp: fa_get_connection_def split: sum.splits prod.splits option.splits)
qed

lemma get_schema_keeps:
  assumes "connections s k = Some v"
  shows "connections (snd (get_schema drv d s)) k = Some v"
  using get_connection_keeps [OF assms, of drv d "get_schema_body drv d"]
  by (auto simp: get_schema_def split: sum.splits prod.splits)

lemma execute_query_keeps:
  assumes "connections s k = Some v"
  shows "connections (snd (execute_query drv q d s)) k = Some v"
  using get_connection_keeps [OF assms, of drv d "execute_query_body drv q"]
  by (auto simp: execute_query_def split: sum.splits prod.splits)

lemma step_keeps:
  "connections s k = Some v \<Longrightarrow> connections (step drv x s) k = Some v"
  by (cases x) (simp_all add: get_connection_keeps get_schema_keeps execute_query_keeps)

lemma run_keeps:
  "connections s k = Some v \<Longrightarrow> connections (run drv xs s) k = Some v"
  by (induction xs arbitrary: s) (simp_all add: step_keeps)

lemma conn_key_triple:
  "db_type d' = db_type d \<Longrightarrow> db_name d' = db_name d \<Longrightarrow> db_host d' = db_host d
     \<Longrightarrow> conn_key d' = conn_key d"
  by (simp add: conn_key_def)

lemma gc_enter_creates:
  "connections s (conn_key d) = None \<Longrightarrow> create_connection drv d (world s) = (Inr c, w)
     \<Longrightarrow> gc_enter drv d s = (Inr c, s\<lparr>connections := (connections s)(conn_key d \<mapsto> c), world := w\<rparr>)"
  by (simp add: gc_enter_def)

lemma get_connection_stores:
  assumes "connections s (conn_key d) = None" and "create_connection drv d (world s) = (Inr c, w)"
  shows "connections (snd (get_connection drv d body s)) (conn_key d) = Some c"
  using gc_enter_creates [OF assms]
  by (auto simp: get_connection_def split: sum.splits prod.splits option.splits
           dest!: gc_finally_connections)

lemma fa_get_connection_stores:
  assumes "connections s (conn_key d) = None" and "create_connection drv d (world s) = (Inr c, w)"
  shows "connections (snd (fa_get_connection drv d body s)) (conn_key d) = Some c"
  using gc_enter_creates [OF assms]
  by (auto simp: fa_get_connection_def split: sum.splits prod.splits option.splits)

lemmas demo_simps =
  new_manager_def sqlite_cfg_def postgres_cfg_def oracle_cfg_def demo_driver_def demo_open_def
  demo_world0_def conn_key_def create_connection_def wrap_connect_def

text \<open>
  What the cache keeps is one entry per key string. When no entry is cached under the
  key string of a configuration and \<open>_create_connection\<close> returns \<open>c\<close>, the code before
  the \<open>yield\<close> yields \<open>c\<close> and stores it under that string, in Data\_Base\_Manager.py and
  in fast\_api.py alike; after any further sequence of manager operations a
  configuration with the same \<open>db_type\<close>, \<open>db_name\<close> and \<open>db_host\<close> is yielded that \<open>c\<close> with
  no driver call.
\<close>

lemma key_string_cached_once:
  assumes absent: "connections s (conn_key d) = None"
    and created: "create_connection drv d (world s) = (Inr c, w)"
    and same: "db_type d' = db_type d" "db_name d' = db_name d" "db_host d' = db_host d"
  shows "gc_enter drv d s
           = (Inr c, s\<lparr>connections := (connections s)(conn_key d \<mapsto> c), world := w\<rparr>)
       \<and> connections (snd (get_connection drv d body s)) (conn_key d) = Some c
       \<and> connections (snd (fa_get_connection drv d body s)) (conn_key d) = Some c
       \<and> gc_enter drv d' (run drv ops (snd (get_connection drv d body s)))
           = (Inr c, run drv ops (snd (get_connection drv d body s)))"
proof -
  have k: "conn_key d' = conn_key d" using same by (rule conn_key_triple)
  have st: "connections (snd (get_connection drv d body s)) (conn_key d) = Some c"
    using absent created by (rule get_connection_stores)
  have "connections (run drv ops (snd (get_connection drv d body s))) (conn_key d') = Some c"
    using st k by (simp add: run_keeps)
  then have "gc_enter drv d' (run drv ops (snd (get_connection drv d body s)))
           = (Inr c, run drv ops (snd (get_connection drv d body s)))"
    by (rule gc_enter_cached)
  then show ?thesis
    using st gc_enter_creates [OF absent created] fa_get_connection_stores [OF absent created]
    by simp
qed

text \<open>
  \<^bold>\<open>C1.\<close> The key string \<open>f"{db_type}_{db_name}_{db_host}"\<close> does not determine the
  three fields: database \<open>shop_x\<close> on host \<open>h\<close> and database \<open>shop\<close> on host \<open>x_h\<close> both
  give \<open>PostgreSQL_shop_x_h\<close>. On a fresh manager the first operation against the first
  configuration creates connection 0 and caches it. The first operation against the
  second configuration then finds the key present: it creates nothing (the world still
  counts one opened connection) and its body is given connection 0, the connection to
  the other database, in Data\_Base\_Manager.py and in fast\_api.py alike.
  \<open>_create_connection\<close> for the second configuration would have opened connection 1.
\<close>

theorem conn_key_collision_shares_connection:
  "db_name (postgres_db ''shop_x'' ''h'') \<noteq> db_name (postgres_db ''shop'' ''x_h'')
   \<and> db_host (postgres_db ''shop_x'' ''h'') \<noteq> db_host (postgres_db ''shop'' ''x_h'')
   \<and> conn_key (postgres_db ''shop_x'' ''h'') = ''PostgreSQL_shop_x_h''
   \<and> conn_key (postgres_db ''shop'' ''x_h'') = ''PostgreSQL_shop_x_h''
   \<and> get_connection (demo_driver False) (postgres_db ''shop_x'' ''h'') return_conn
         (new_manager demo_world0)
       = (Inr (Some 0),
          \<lparr>connections = [''PostgreSQL_shop_x_h'' \<mapsto> Some 0],
           world = demo_world0\<lparr>opened := 1\<rparr>\<rparr>)
   \<and> get_connection (demo_driver False) (postgres_db ''shop'' ''x_h'') return_conn
         \<lparr>connections = [''PostgreSQL_shop_x_h'' \<mapsto> Some 0],
          world = demo_world0\<lparr>opened := 1\<rparr>\<rparr>
       = (Inr (Some 0),
          \<lparr>connections = [''PostgreSQL_shop_x_h'' \<mapsto> Some 0],
           world = demo_world0\<lparr>opened := 1\<rparr>\<rparr>)
   \<and> fa_get_connection (demo_driver False) (postgres_db ''shop'' ''x_h'') return_conn
         \<lparr>connections = [''PostgreSQL_shop_x_h'' \<mapsto> Some 0],
          world = demo_world0\<lparr>opened := 1\<rparr>\<rparr>
       = (Inr (Some 0),
          \<lparr>connections = [''PostgreSQL_shop_x_h'' \<mapsto> Some 0],
           world = demo_world0\<lparr>opened := 1\<rparr>\<rparr>)
   \<and> create_connection (demo_driver False) (postgres_db ''shop'' ''x_h'')
         (demo_world0\<lparr>opened := 1\<rparr>)
       = (Inr (Some 1), demo_world0\<lparr>opened := 2\<rparr>)"
  by (simp add: get_connection_def fa_get_connection_def gc_enter_def gc_finally_def
        gc_except_def create_connection_def wrap_connect_def conn_key_def postgres_db_def
        return_conn_def new_manager_def demo_driver_def demo_open_def demo_world0_def)

text \<open>
  \<^bold>\<open>C7.\<close> The cache has no eviction: an entry present before \<open>get_connection\<close> (with any
  body), \<open>get_schema\<close>, \<open>execute_query\<close> or any sequence of them is present afterwards
  with the same connection, whatever the operation returned or raised.
\<close>

theorem cache_never_evicts:
  assumes "connections s k = Some v"
  shows "connections (snd (get_connection drv d body s)) k = Some v
       \<and> connections (snd (get_schema drv d s)) k = Some v
       \<and> connections (snd (execute_query drv q d s)) k = Some v
       \<and> connections (run drv ops s) k = Some v"
  using assms
  by (simp add: get_connection_keeps get_schema_keeps execute_query_keeps run_keeps)

text \<open>A concrete run that meets the hypotheses.\<close>

theorem cache_never_evicts_witness:
  "connections ((new_manager demo_world0)\<lparr>connections := [''SQLite_shop.db_None'' \<mapsto> Some 7]\<rparr>)
       ''SQLite_shop.db_None'' = Some (Some 7)
   \<and> connections (snd (execute_query (demo_driver False) ''DROP TABLE users;'' (sqlite_cfg ''shop.db'')
         ((new_manager demo_world0)\<lparr>connections := [''SQLite_shop.db_None'' \<mapsto> Some 7]\<rparr>)))
       ''SQLite_shop.db_None'' = Some (Some 7)"
proof -
  have h: "connections ((new_manager demo_world0)\<lparr>connections := [''SQLite_shop.db_None'' \<mapsto> Some 7]\<rparr>)
       ''SQLite_shop.db_None'' = Some (Some 7)"
    by simp
  from cache_never_evicts
         [where drv = "demo_driver False" and d = "sqlite_cfg ''shop.db''"
            and q = "''DROP TABLE users;''", OF h]
  show ?thesis using h by blast
qed

text \<open>
  \<^bold>\<open>C10.\<close> Once a connection is cached for a configuration, a configuration with the
  same \<open>db_type\<close>, \<open>db_name\<close> and \<open>db_host\<close> is yielded that connection with no driver call,
  and the whole \<open>with\<close> statement behaves as for the first configuration: user, password
  and port have no influence.
\<close>

theorem cached_connection_ignores_credentials:
  assumes "db_type d2 = db_type d1" "db_name d2 = db_name d1" "db_host d2 = db_host d1"
    and "connections s (conn_key d1) = Some c"
  shows "gc_enter drv d2 s = (Inr c, s)
       \<and> get_connection drv d2 body s = get_connection drv d1 body s
       \<and> fa_get_connection drv d2 body s = fa_get_connection drv d1 body s"
proof -
  have k: "conn_key d2 = conn_key d1" using assms(1-3) by (rule conn_key_triple)
  have e1: "gc_enter drv d1 s = (Inr c, s)" using assms(4) by (rule gc_enter_cached)
  have e2: "gc_enter drv d2 s = (Inr c, s)" using assms(4) k by (simp add: gc_enter_cached)
  have f: "\<And>t. gc_finally drv d2 t = gc_finally drv d1 t"
    unfolding gc_finally_def k assms(1) ..
  show ?thesis
    using e1 e2 f by (simp add: get_connection_def fa_get_connection_def)
qed

text \<open>A concrete run that meets the hypotheses.\<close>

theorem cached_connection_ignores_credentials_witness:
  "connections ((new_manager demo_world0)\<lparr>connections := [''PostgreSQL_shop_db.example.org'' \<mapsto> Some 3]\<rparr>)
       (conn_key (postgres_cfg ''alice'' ''secret'' ''5432'')) = Some (Some 3)
   \<and> gc_enter (demo_driver False) (postgres_cfg ''bob'' ''wrong'' ''6543'')
        ((new_manager demo_world0)\<lparr>connections := [''PostgreSQL_shop_db.example.org'' \<mapsto> Some 3]\<rparr>)
       = (Inr (Some 3),
          (new_manager demo_world0)\<lparr>connections := [''PostgreSQL_shop_db.example.org'' \<mapsto> Some 3]\<rparr>)"
proof -
  let ?d = "postgres_cfg ''alice'' ''secret'' ''5432''"
  let ?d' = "postgres_cfg ''bob'' ''wrong'' ''6543''"
  have h3: "db_type ?d' = db_type ?d" and h4: "db_name ?d' = db_name ?d"
    and h5: "db_host ?d' = db_host ?d"
    by (simp_all add: postgres_cfg_def)
  have h: "connections ((new_manager demo_world0)\<lparr>connections := [''PostgreSQL_shop_db.example.org'' \<mapsto> Some 3]\<rparr>)
       (conn_key ?d) = Some (Some 3)"
    by (simp add: conn_key_def postgres_cfg_def)
  from cached_connection_ignores_credentials [where drv = "demo_driver False", OF h3 h4 h5 h]
  show ?thesis using h by blast
qed

text \<open>
  \<^bold>\<open>C8.\<close> For \<open>db_type\<close> \<open>SQLite\<close>, when no entry is cached under the key and
  \<open>_create_connection\<close> raises, \<open>get_connection\<close> raises the \<open>KeyError\<close> of the lookup in its
  \<open>finally\<close> block, not the \<open>ConnectionError\<close>; nothing is stored and the body is not run.
\<close>

theorem sqlite_connect_error_masked:
  assumes "db_type d = ''SQLite''"
    and "connections s (conn_key d) = None"
    and "create_connection drv d (world s) = (Inl e, w)"
  shows "get_connection drv d body s = (Inl (Exn KeyError (py_repr (conn_key d))), s\<lparr>world := w\<rparr>)"
  using assms
  by (simp add: get_connection_def gc_enter_def gc_finally_def)

text \<open>A concrete run that meets the hypotheses.\<close>

theorem sqlite_connect_error_masked_witness:
  "db_type (sqlite_cfg ''missing/shop.db'') = ''SQLite''
   \<and> connections (new_manager demo_world0) (conn_key (sqlite_cfg ''missing/shop.db'')) = None
   \<and> create_connection (demo_driver False) (sqlite_cfg ''missing/shop.db'') (world (new_manager demo_world0))
       = (Inl (Exn ConnectionError ''Failed to connect to database: unable to open database file''),
          demo_world0)
   \<and> get_connection (demo_driver False) (sqlite_cfg ''missing/shop.db'')
        (get_schema_body (demo_driver False) (sqlite_cfg ''missing/shop.db'')) (new_manager demo_world0)
       = (Inl (Exn KeyError (py_repr (conn_key (sqlite_cfg ''missing/shop.db'')))),
          (new_manager demo_world0)\<lparr>world := demo_world0\<rparr>)"
proof -
  let ?d = "sqlite_cfg ''missing/shop.db''"
  have h1: "db_type ?d = ''SQLite''"
    by (simp add: sqlite_cfg_def)
  have h2: "connections (new_manager demo_world0) (conn_key ?d) = None"
    by (simp add: new_manager_def)
  have h3: "create_connection (demo_driver False) ?d (world (new_manager demo_world0))
       = (Inl (Exn ConnectionError ''Failed to connect to database: unable to open database file''),
          demo_world0)"
    by (simp add: demo_simps)
  from sqlite_connect_error_masked
         [where body = "get_schema_body (demo_driver False) ?d", OF h1 h2 h3]
  show ?thesis using h1 h2 h3 by blast
qed

subsection \<open>Schema inspection and query execution\<close>

text \<open>
  \<^bold>\<open>C3.\<close> \<open>get_schema\<close> on a fresh manager for the \<open>db_type\<close> \<open>Oracle\<close>:
  \<open>_create_connection\<close> returns \<open>None\<close>, which is cached and yielded, and \<open>conn.cursor()\<close>
  fails before the branch that raises \<open>Unsupported database type\<close> is reached. The result
  is a failure whose message is about \<open>NoneType\<close> and does not name the database type.
\<close>

theorem get_schema_unsupported_type_message:
  "get_schema drv oracle_cfg (new_manager w)
     = (Failure (''Failed to get schema: Database connection failed: '' @ [CHR 0x27]
                   @ ''NoneType' object has no attribute '' @ [CHR 0x27] @ ''cursor'' @ [CHR 0x27]),
        \<lparr>connections = [conn_key oracle_cfg \<mapsto> None], world = w\<rparr>)"
  by (simp add: get_schema_def get_connection_def gc_enter_def gc_finally_def gc_except_def
        create_connection_def get_schema_body_def new_manager_def oracle_cfg_def
        none_attr_error_def)

text \<open>
  \<^bold>\<open>C2\<close>, as stated, fails when the statement yields no row: the cursor runs the
  statement and has a description with the column \<open>name\<close>, and \<open>execute_query\<close> returns
  \<open>None\<close>.
\<close>

theorem execute_query_zero_rows_counterexample:
  "cur_execute (demo_driver False) 0 ''SELECT name FROM users WHERE id < 0;''
       (demo_world0\<lparr>opened := 1\<rparr>)
     = (None, demo_world0\<lparr>opened := 1, result_set := [], result_columns := Some [''name'']\<rparr>)
   \<and> fst (execute_query (demo_driver False) ''SELECT name FROM users WHERE id < 0;''
            (sqlite_cfg ''shop.db'') (new_manager demo_world0)) = Inr None"
  by (simp add: execute_query_def get_connection_def gc_enter_def gc_finally_def gc_except_def
        create_connection_def wrap_connect_def execute_query_body_def new_manager_def
        sqlite_cfg_def demo_driver_def demo_open_def demo_world0_def demo_answer_def conn_key_def
        sqlite_tables_sql_def fa_sqlite_tables_sql_def sqlite_pragma_sql_def fa_sqlite_pragma_sql_def
        postgres_columns_sql_def)

text \<open>
  \<^bold>\<open>C2\<close>, amended. When the connection is yielded, the cursor runs the statement, has
  a description and \<open>fetchall\<close> returns, and the \<open>finally\<close> block raises nothing,
  \<open>execute_query\<close> returns the fetched rows paired with the column names of the
  description if there is at least one row, and \<open>None\<close> if there is none.
\<close>

theorem execute_query_rows_and_columns:
  assumes "gc_enter drv d s = (Inr (Some c), s1)"
    and "conn_cursor drv c (world s1) = (Inr cu, w1)"
    and "cur_execute drv cu q w1 = (None, w2)"
    and "cur_truthy drv cu"
    and "cur_description drv cu w2 = Some columns"
    and "cur_fetchall drv cu w2 = (Inr rows, w3)"
    and "gc_finally drv d (s1\<lparr>world := w3\<rparr>) = (None, s3)"
  shows "execute_query drv q d s
           = (Inr (if rows = [] then None else Some (DataFrame rows columns)), s3)"
  using assms
  by (simp add: execute_query_def get_connection_def execute_query_body_def gc_except_def)

text \<open>A concrete run that meets the hypotheses.\<close>

theorem execute_query_rows_and_columns_witness:
  "gc_enter (demo_driver False) (sqlite_cfg ''shop.db'') (new_manager demo_world0)
     = (Inr (Some 0), \<lparr>connections = [''SQLite_shop.db_None'' \<mapsto> Some 0],
                       world = demo_world0\<lparr>opened := 1\<rparr>\<rparr>)
   \<and> fst (execute_query (demo_driver False) ''SELECT name FROM users;'' (sqlite_cfg ''shop.db'')
            (new_manager demo_world0))
     = Inr (Some (DataFrame [[SText ''ada''], [SText ''grace'']] [''name'']))"
proof -
  let ?drv = "demo_driver False"
  let ?s1 = "\<lparr>connections = [''SQLite_shop.db_None'' \<mapsto> Some 0],
               world = demo_world0\<lparr>opened := 1\<rparr>\<rparr>"
  let ?w2 = "demo_world0\<lparr>opened := 1, result_set := [[SText ''ada''], [SText ''grace'']],
               result_columns := Some [''name'']\<rparr>"
  let ?w3 = "demo_world0\<lparr>opened := 1, result_set := [], result_columns := Some [''name'']\<rparr>"
  have h1: "gc_enter ?drv (sqlite_cfg ''shop.db'') (new_manager demo_world0) = (Inr (Some 0), ?s1)"
    by (simp add: gc_enter_def demo_simps)
  have h2: "conn_cursor ?drv 0 (world ?s1) = (Inr 0, demo_world0\<lparr>opened := 1\<rparr>)"
    by (simp add: demo_driver_def)
  have h3: "cur_execute ?drv 0 ''SELECT name FROM users;'' (demo_world0\<lparr>opened := 1\<rparr>) = (None, ?w2)"
    by (simp add: demo_driver_def demo_answer_def demo_world0_def sqlite_tables_sql_def
          fa_sqlite_tables_sql_def sqlite_pragma_sql_def fa_sqlite_pragma_sql_def
          postgres_columns_sql_def)
  have h4: "cur_truthy ?drv 0" by (simp add: demo_driver_def)
  have h5: "cur_description ?drv 0 ?w2 = Some [''name'']" by (simp add: demo_driver_def)
  have h6: "cur_fetchall ?drv 0 ?w2 = (Inr [[SText ''ada''], [SText ''grace'']], ?w3)"
    by (simp add: demo_driver_def demo_world0_def)
  have h7: "gc_finally ?drv (sqlite_cfg ''shop.db'') (?s1\<lparr>world := ?w3\<rparr>)
              = (None, ?s1\<lparr>world := ?w3\<rparr>)"
    by (simp add: gc_finally_def demo_simps)
  from execute_query_rows_and_columns [OF h1 h2 h3 h4 h5 h6 h7]
  show ?thesis using h1 by simp
qed

subsection \<open>The query generator and the endpoint\<close>

text \<open>
  \<^bold>\<open>C4.\<close> \<open>generate_query\<close> returns what the model client gives for the prompt template
  with the schema text in it, followed by \<open>\n\nUser Question: \<close> and the question. The
  schema text is the \<open>schema\<close> entry of a dict argument (the empty string when the dict
  has none) and the argument itself otherwise.
\<close>

theorem generate_query_prompt:
  "generate_query f question (SchemaDict (m(''schema'' \<mapsto> PStr t)))
     = f (prompt_head @ t @ prompt_tail @ ''\<newline>\<newline>User Question: '' @ question)
   \<and> generate_query f question (SchemaValue (PStr t))
     = f (prompt_head @ t @ prompt_tail @ ''\<newline>\<newline>User Question: '' @ question)
   \<and> generate_query f question (SchemaDict (m(''schema'' := None)))
     = f (prompt_head @ prompt_tail @ ''\<newline>\<newline>User Question: '' @ question)
   \<and> generate_query f question schema
     = f (get_prompt_template (schema_str schema) @ ''\<newline>\<newline>User Question: '' @ question)"
  by (simp add: generate_query_def get_prompt_template_def)

text \<open>
  \<^bold>\<open>C9.\<close> On the \<open>/get_schema\<close> endpoint of api.py a failed inspection gives an
  \<open>HTTPException\<close> with status 500 whose detail is \<open>Failed to retrieve schema: \<close> followed by
  the text of the status-400 exception that carried the message; every exception the
  handler raises has status 500, so none has status 400.
\<close>

theorem get_schema_endpoint_status:
  "(\<forall>m. fst (get_schema drv d s) = Failure m \<longrightarrow>
        fst (api_get_schema http_str drv d s)
          = Inl (HTTPException 500 (''Failed to retrieve schema: '' @ http_str 400 m)))
   \<and> (\<forall>e. fst (api_get_schema http_str drv d s) = Inl e \<longrightarrow> status_code e = 500)"
  by (auto simp: api_get_schema_def split: prod.splits schema_result.splits)

text \<open>A concrete run that meets the hypotheses.\<close>

theorem get_schema_endpoint_status_witness:
  "fst (get_schema (demo_driver False) oracle_cfg (new_manager demo_world0))
     = Failure (''Failed to get schema: Database connection failed: '' @ [CHR 0x27]
                   @ ''NoneType' object has no attribute '' @ [CHR 0x27] @ ''cursor'' @ [CHR 0x27])
   \<and> fst (api_get_schema (\<lambda>n m. str_nat n @ '': '' @ m) (demo_driver False) oracle_cfg
            (new_manager demo_world0))
     = Inl (HTTPException 500
              (''Failed to retrieve schema: '' @ str_nat 400 @ '': ''
                 @ ''Failed to get schema: Database connection failed: '' @ [CHR 0x27]
                 @ ''NoneType' object has no attribute '' @ [CHR 0x27] @ ''cursor'' @ [CHR 0x27]))"
proof -
  have h: "fst (get_schema (demo_driver False) oracle_cfg (new_manager demo_world0))
     = Failure (''Failed to get schema: Database connection failed: '' @ [CHR 0x27]
                   @ ''NoneType' object has no attribute '' @ [CHR 0x27] @ ''cursor'' @ [CHR 0x27])"
    by (simp add: get_schema_def get_connection_def gc_enter_def gc_finally_def gc_except_def
        create_connection_def get_schema_body_def new_manager_def oracle_cfg_def
        none_attr_error_def)
  from get_schema_endpoint_status
         [where drv = "demo_driver False" and d = oracle_cfg and s = "new_manager demo_world0"
            and http_str = "\<lambda>n m. str_nat n @ '': '' @ m"]
  have "fst (api_get_schema (\<lambda>n m. str_nat n @ '': '' @ m) (demo_driver False) oracle_cfg
            (new_manager demo_world0))
     = Inl (HTTPException 500
              (''Failed to retrieve schema: '' @ str_nat 400 @ '': ''
                 @ (''Failed to get schema: Database connection failed: '' @ [CHR 0x27]
                 @ ''NoneType' object has no attribute '' @ [CHR 0x27] @ ''cursor'' @ [CHR 0x27])))"
    using h by blast
  then show ?thesis using h by simp
qed

subsection \<open>The PostgreSQL inspector\<close>

lemma set_first_appearances: "set (first_appearances xs) = set xs"
  by (induction xs) auto

lemma first_appearances_skip:
  "x \<notin> set (dropWhile (\<lambda>y. y = x) xs)
     \<Longrightarrow> filter (\<lambda>y. y \<noteq> x) (first_appearances xs) = first_appearances (dropWhile (\<lambda>y. y = x) xs)"
proof (induction xs)
  case Nil
  then show ?case by simp
next
  case (Cons y ys)
  show ?case
  proof (cases "y = x")
    case True
    with Cons show ?thesis by (auto simp: filter_id_conv set_first_appearances)
  next
    case False
    with Cons.prems have "x \<notin> set (y # ys)" by simp
    then have "\<forall>z\<in>set (first_appearances (y # ys)). z \<noteq> x"
      unfolding set_first_appearances by blast
    then have "filter (\<lambda>z. z \<noteq> x) (first_appearances (y # ys)) = first_appearances (y # ys)"
      by (rule filter_id_conv [THEN iffD2])
    with False show ?thesis by simp
  qed
qed


lemma filter_takeWhile_grouped:
  "\<forall>r\<in>set (dropWhile P xs). \<not> P r \<Longrightarrow> filter P xs = takeWhile P xs"
proof (induction xs)
  case Nil
  show ?case by simp
next
  case (Cons a xs)
  show ?case
  proof (cases "P a")
    case True
    with Cons.prems have "\<forall>r\<in>set (dropWhile P xs). \<not> P r" by simp
    then have "filter P xs = takeWhile P xs" by (rule Cons.IH)
    with True show ?thesis by simp
  next
    case False
    with Cons.prems have "\<forall>r\<in>set (a # xs). \<not> P r" by simp
    then have "filter P (a # xs) = []" unfolding filter_empty_conv .
    with False show ?thesis by simp
  qed
qed

lemma filter_other_dropWhile:
  "v \<noteq> u \<Longrightarrow> filter (\<lambda>r. f r = v) xs = filter (\<lambda>r. f r = v) (dropWhile (\<lambda>r. f r = u) xs)"
  by (induction xs) auto

lemma dropWhile_map_eq:
  "dropWhile (\<lambda>y. y = u) (map f xs) = map f (dropWhile (\<lambda>r. f r = u) xs)"
  by (induction xs) auto

lemma grouped_tail: "grouped (x # xs) \<Longrightarrow> grouped xs"
  unfolding grouped.simps by blast

lemma grouped_head: "grouped (x # xs) \<Longrightarrow> x \<notin> set (dropWhile (\<lambda>y. y = x) xs)"
  unfolding grouped.simps by blast

lemma pg_step_typed:
  "postgres_row_step (pg_row c) (parts, cur, ds) =
     Inr (if cur \<noteq> SText (pg_table c)
          then ((if cur \<noteq> SNull then parts @ [table_section cur ds] else parts),
                SText (pg_table c), [spec_column_line c])
          else (parts, cur, ds @ [spec_column_line c]))"
  by (simp add: postgres_row_step_def pg_row_def unpack5_def spec_column_line_def
           split: option.splits)

lemma spec_sections_first_run:
  assumes g: "grouped (map pg_table (c # cs))"
  shows "map (spec_table_section (c # cs)) (first_appearances (map pg_table (c # cs)))
           = table_section (SText (pg_table c))
               (spec_column_line c
                  # map spec_column_line (takeWhile (\<lambda>r. pg_table r = pg_table c) cs))
             # map (spec_table_section (dropWhile (\<lambda>r. pg_table r = pg_table c) cs))
                 (first_appearances
                    (map pg_table (dropWhile (\<lambda>r. pg_table r = pg_table c) cs)))"
proof -
  let ?u = "pg_table c"
  let ?rest = "dropWhile (\<lambda>r. pg_table r = ?u) cs"
  from g have nd: "?u \<notin> set (dropWhile (\<lambda>y. y = ?u) (map pg_table cs))"
    unfolding list.map by (rule grouped_head)
  then have nd': "?u \<notin> set (map pg_table ?rest)"
    unfolding dropWhile_map_eq .
  have fa: "first_appearances (?u # map pg_table cs)
              = ?u # first_appearances (map pg_table ?rest)"
    unfolding first_appearances.simps first_appearances_skip [OF nd] dropWhile_map_eq ..
  have "\<forall>r\<in>set ?rest. \<not> pg_table r = ?u"
  proof
    fix r assume "r \<in> set ?rest"
    then have "pg_table r \<in> pg_table ` set ?rest" by (rule imageI)
    then have m: "pg_table r \<in> set (map pg_table ?rest)" unfolding set_map .
    show "\<not> pg_table r = ?u"
    proof
      assume "pg_table r = ?u"
      with m have "?u \<in> set (map pg_table ?rest)" by (simp only:)
      with nd' show False by (rule notE)
    qed
  qed
  then have own: "filter (\<lambda>r. pg_table r = ?u) cs = takeWhile (\<lambda>r. pg_table r = ?u) cs"
    by (rule filter_takeWhile_grouped)
  have "filter (\<lambda>r. pg_table r = ?u) (c # cs) = c # filter (\<lambda>r. pg_table r = ?u) cs"
    by simp
  then have own': "filter (\<lambda>r. pg_table r = ?u) (c # cs)
                     = c # takeWhile (\<lambda>r. pg_table r = ?u) cs"
    unfolding own .
  have first: "spec_table_section (c # cs) ?u
                 = table_section (SText ?u)
                     (spec_column_line c
                        # map spec_column_line (takeWhile (\<lambda>r. pg_table r = ?u) cs))"
    unfolding spec_table_section_def table_section_def own' py_str.simps list.map ..
  have others: "map (spec_table_section (c # cs)) (first_appearances (map pg_table ?rest))
                  = map (spec_table_section ?rest) (first_appearances (map pg_table ?rest))"
  proof (rule map_cong [OF refl])
    fix v assume "v \<in> set (first_appearances (map pg_table ?rest))"
    then have "v \<in> set (map pg_table ?rest)" unfolding set_first_appearances .
    with nd' have ne: "v \<noteq> ?u" by blast
    then have "filter (\<lambda>r. pg_table r = v) (c # cs) = filter (\<lambda>r. pg_table r = v) cs"
      by simp
    also have "\<dots> = filter (\<lambda>r. pg_table r = v) ?rest"
      using ne by (rule filter_other_dropWhile)
    finally have "filter (\<lambda>r. pg_table r = v) (c # cs) = filter (\<lambda>r. pg_table r = v) ?rest" .
    then show "spec_table_section (c # cs) v = spec_table_section ?rest v"
      unfolding spec_table_section_def by (rule arg_cong)
  qed
  show ?thesis
    unfolding fa list.map(2) first others ..
qed

lemma loop_step_same:
  "postgres_rows_loop (map pg_row (c # cs)) (parts, SText (pg_table c), ds)
     = postgres_rows_loop (map pg_row cs) (parts, SText (pg_table c), ds @ [spec_column_line c])"
  by (simp add: pg_step_typed)

lemma loop_step_other:
  "pg_table c \<noteq> t \<Longrightarrow>
   postgres_rows_loop (map pg_row (c # cs)) (parts, SText t, ds)
     = postgres_rows_loop (map pg_row cs)
         (parts @ [table_section (SText t) ds], SText (pg_table c), [spec_column_line c])"
  by (simp add: pg_step_typed)

lemma postgres_loop_typed:
  "grouped (map pg_table cs) \<Longrightarrow>
   t \<notin> set (map pg_table (dropWhile (\<lambda>r. pg_table r = t) cs)) \<Longrightarrow>
   \<exists>st. postgres_rows_loop (map pg_row cs) (parts, SText t, ds) = Inr st
        \<and> postgres_after_loop st =
            parts @ table_section (SText t)
                      (ds @ map spec_column_line (takeWhile (\<lambda>r. pg_table r = t) cs))
              # map (spec_table_section (dropWhile (\<lambda>r. pg_table r = t) cs))
                  (first_appearances (map pg_table (dropWhile (\<lambda>r. pg_table r = t) cs)))"
proof (induction cs arbitrary: parts t ds)
  case Nil
  then show ?case by (simp add: postgres_after_loop_def)
next
  case (Cons c cs)
  from Cons.prems(1) have g: "grouped (map pg_table cs)"
    unfolding list.map by (rule grouped_tail)
  show ?case
  proof (cases "pg_table c = t")
    case True
    with Cons.prems(2) have nd: "t \<notin> set (map pg_table (dropWhile (\<lambda>r. pg_table r = t) cs))"
      by simp
    have tk: "takeWhile (\<lambda>r. pg_table r = t) (c # cs) = c # takeWhile (\<lambda>r. pg_table r = t) cs"
      and dr: "dropWhile (\<lambda>r. pg_table r = t) (c # cs) = dropWhile (\<lambda>r. pg_table r = t) cs"
      using True by simp_all
    have run: "postgres_rows_loop (map pg_row (c # cs)) (parts, SText t, ds)
                 = postgres_rows_loop (map pg_row cs) (parts, SText t, ds @ [spec_column_line c])"
      using loop_step_same [of c cs parts ds] True by (simp only:)
    from Cons.IH [OF g nd, of parts "ds @ [spec_column_line c]"]
    show ?thesis unfolding tk dr run by simp
  next
    case False
    let ?u = "pg_table c"
    from Cons.prems(1) have "?u \<notin> set (dropWhile (\<lambda>y. y = ?u) (map pg_table cs))"
      unfolding list.map by (rule grouped_head)
    then have nd: "?u \<notin> set (map pg_table (dropWhile (\<lambda>r. pg_table r = ?u) cs))"
      unfolding dropWhile_map_eq .
    from Cons.IH [OF g nd, of "parts @ [table_section (SText t) ds]" "[spec_column_line c]"]
    obtain st where st: "postgres_rows_loop (map pg_row cs)
          (parts @ [table_section (SText t) ds], SText ?u, [spec_column_line c]) = Inr st"
      and sec: "postgres_after_loop st =
            (parts @ [table_section (SText t) ds])
              @ table_section (SText ?u)
                      ([spec_column_line c] @ map spec_column_line (takeWhile (\<lambda>r. pg_table r = ?u) cs))
              # map (spec_table_section (dropWhile (\<lambda>r. pg_table r = ?u) cs))
                  (first_appearances (map pg_table (dropWhile (\<lambda>r. pg_table r = ?u) cs)))"
      by blast
    have tk: "takeWhile (\<lambda>r. pg_table r = t) (c # cs) = []"
      and dr: "dropWhile (\<lambda>r. pg_table r = t) (c # cs) = c # cs"
      using False by simp_all
    have run: "postgres_rows_loop (map pg_row (c # cs)) (parts, SText t, ds) = Inr st"
      using loop_step_other [OF False, of cs parts ds] st by (simp only:)
    have final: "postgres_after_loop st =
            parts @ table_section (SText t) (ds @ map spec_column_line [])
              # map (spec_table_section (c # cs)) (first_appearances (map pg_table (c # cs)))"
      unfolding sec spec_sections_first_run [OF Cons.prems(1)] by simp
    from run final show ?thesis unfolding tk dr by blast
  qed
qed


lemma postgres_schema_of_rows_typed:
  assumes g: "grouped (map pg_table cs)"
  shows "postgres_schema_of_rows (map pg_row cs) = Inr (spec_postgres_schema cs)"
proof (cases cs)
  case Nil
  then show ?thesis
    by (simp add: postgres_schema_of_rows_def postgres_after_loop_def spec_postgres_schema_def)
next
  case (Cons c cs')
  let ?t = "pg_table c"
  from g Cons have g': "grouped (map pg_table (c # cs'))" by (simp only:)
  then have g1: "grouped (map pg_table cs')"
    unfolding list.map by (rule grouped_tail)
  from g' have "?t \<notin> set (dropWhile (\<lambda>y. y = ?t) (map pg_table cs'))"
    unfolding list.map by (rule grouped_head)
  then have nd: "?t \<notin> set (map pg_table (dropWhile (\<lambda>r. pg_table r = ?t) cs'))"
    unfolding dropWhile_map_eq .
  have first: "postgres_rows_loop (map pg_row (c # cs')) ([], SNull, [])
                 = postgres_rows_loop (map pg_row cs') ([], SText ?t, [spec_column_line c])"
    by (simp add: pg_step_typed)
  from postgres_loop_typed [OF g1 nd, of "[]" "[spec_column_line c]"]
  obtain st where st: "postgres_rows_loop (map pg_row cs') ([], SText ?t, [spec_column_line c]) = Inr st"
    and sec: "postgres_after_loop st =
            [] @ table_section (SText ?t)
                      ([spec_column_line c] @ map spec_column_line (takeWhile (\<lambda>r. pg_table r = ?t) cs'))
              # map (spec_table_section (dropWhile (\<lambda>r. pg_table r = ?t) cs'))
                  (first_appearances (map pg_table (dropWhile (\<lambda>r. pg_table r = ?t) cs')))"
    by blast
  have "postgres_after_loop st
          = map (spec_table_section (c # cs')) (first_appearances (map pg_table (c # cs')))"
    unfolding sec spec_sections_first_run [OF g'] by simp
  then have "postgres_schema_of_rows (map pg_row (c # cs')) = Inr (spec_postgres_schema (c # cs'))"
    unfolding postgres_schema_of_rows_def first st spec_postgres_schema_def by simp
  with Cons show ?thesis by (simp only:)
qed

lemma sorted_no_later_occurrence:
  fixes x :: "'a::linorder"
  shows "sorted xs \<Longrightarrow> \<forall>y\<in>set xs. x \<le> y \<Longrightarrow> x \<notin> set (dropWhile (\<lambda>y. y = x) xs)"
proof (induction xs)
  case Nil
  show ?case by simp
next
  case (Cons a xs)
  show ?case
  proof (cases "a = x")
    case True
    from Cons.prems have "sorted xs" and "\<forall>y\<in>set xs. x \<le> y" by simp_all
    then have "x \<notin> set (dropWhile (\<lambda>y. y = x) xs)" by (rule Cons.IH)
    with True show ?thesis by simp
  next
    case False
    with Cons.prems(2) have "x < a" by auto
    moreover from Cons.prems(1) have "\<forall>y\<in>set xs. a \<le> y" by simp
    ultimately have "x \<notin> set (a # xs)" by auto
    with False show ?thesis by simp
  qed
qed

lemma sorted_grouped:
  fixes xs :: "'a::linorder list"
  shows "sorted xs \<Longrightarrow> grouped xs"
proof (induction xs)
  case Nil
  show ?case by simp
next
  case (Cons x xs)
  from Cons.prems have s: "sorted xs" and le: "\<forall>y\<in>set xs. x \<le> y" by simp_all
  from s le have "x \<notin> set (dropWhile (\<lambda>y. y = x) xs)" by (rule sorted_no_later_occurrence)
  moreover from s have "grouped xs" by (rule Cons.IH)
  ultimately show ?case unfolding grouped.simps by (rule conjI)
qed

text \<open>
  \<^bold>\<open>C5.\<close> When the catalog query returns the rows of a list \<open>cs\<close> in which the rows of
  one table are adjacent (as the query's ordering by table name makes them),
  \<open>_get_postgres_schema\<close> returns the text of the specification: one section per
  distinct table in the order of first appearance, with that table's columns in input
  order, each with data type, NULL or NOT NULL, and DEFAULT when the default is not empty.
\<close>

theorem postgres_schema_sections:
  assumes "grouped (map pg_table cs)"
    and "execute_fetchall drv cu postgres_columns_sql w = (Inr (map pg_row cs), w1)"
  shows "get_postgres_schema drv cu w = (Inr (spec_postgres_schema cs), w1)"
  using assms by (simp add: get_postgres_schema_def postgres_schema_of_rows_typed)

text \<open>A concrete run that meets the hypotheses.\<close>

theorem postgres_schema_sections_witness:
  "grouped (map pg_table demo_pg_catalog)
   \<and> execute_fetchall (demo_driver False) 0 postgres_columns_sql demo_world0
       = (Inr (map pg_row demo_pg_catalog),
          demo_world0\<lparr>result_set := [],
            result_columns :=
              Some [''table_name'', ''column_name'', ''data_type'', ''column_default'',
                    ''is_nullable'']\<rparr>)
   \<and> get_postgres_schema (demo_driver False) 0 demo_world0
       = (Inr (spec_postgres_schema demo_pg_catalog),
          demo_world0\<lparr>result_set := [],
            result_columns :=
              Some [''table_name'', ''column_name'', ''data_type'', ''column_default'',
                    ''is_nullable'']\<rparr>)
   \<and> spec_postgres_schema demo_pg_catalog
       = ''\<newline>  Table: customers\<newline>''
         @ ''    - id (integer NOT NULL DEFAULT nextval('customers_id_seq'::regclass))\<newline>''
         @ ''    - name (text NULL)\<newline>''
         @ ''\<newline>  Table: orders\<newline>''
         @ ''    - id (integer NOT NULL)''"
proof -
  have h1: "grouped (map pg_table demo_pg_catalog)"
    by (simp add: demo_pg_catalog_def)
  have h2: "execute_fetchall (demo_driver False) 0 postgres_columns_sql demo_world0
       = (Inr (map pg_row demo_pg_catalog),
          demo_world0\<lparr>result_set := [],
            result_columns :=
              Some [''table_name'', ''column_name'', ''data_type'', ''column_default'',
                    ''is_nullable'']\<rparr>)"
    by (simp add: execute_fetchall_def demo_driver_def demo_answer_def demo_world0_def
          sqlite_tables_sql_def fa_sqlite_tables_sql_def sqlite_pragma_sql_def
          fa_sqlite_pragma_sql_def postgres_columns_sql_def)
  have h3: "spec_postgres_schema demo_pg_catalog
       = ''\<newline>  Table: customers\<newline>''
         @ ''    - id (integer NOT NULL DEFAULT nextval('customers_id_seq'::regclass))\<newline>''
         @ ''    - name (text NULL)\<newline>''
         @ ''\<newline>  Table: orders\<newline>''
         @ ''    - id (integer NOT NULL)''"
    by (simp add: spec_postgres_schema_def spec_table_section_def spec_column_line_def
          demo_pg_catalog_def)
  from postgres_schema_sections [OF h1 h2] show ?thesis using h1 h2 h3 by blast
qed

subsection \<open>The two SQLite inspectors\<close>

lemma fa_format_sqlite:
  "fa_format_table_schema n columns ''sqlite''
     = (case try_map sqlite_column_detail columns of
          Inl e \<Rightarrow> Inl e
        | Inr ds \<Rightarrow> Inr (table_section n ds))"
proof -
  have "fa_column_info 1 2 = sqlite_column_detail"
    by (rule ext) (simp add: fa_column_info_def sqlite_column_detail_def)
  then show ?thesis by (simp add: fa_format_table_schema_def)
qed

lemma sqlite_loops_agree:
  assumes snap: "\<forall>sql w. fst (execute_fetchall drv cu sql w) = answer sql"
  shows "\<forall>t\<in>set tables. \<forall>n. py_index t 0 = Inr n \<longrightarrow>
            answer (fa_sqlite_pragma_sql n) = answer (sqlite_pragma_sql n) \<Longrightarrow>
         fst (fa_tables_loop drv cu fa_sqlite_pragma_sql ''sqlite'' tables parts w)
           = fst (sqlite_tables_loop drv cu tables parts w')"
proof (induction tables arbitrary: parts w w')
  case Nil
  show ?case by simp
next
  case (Cons t ts)
  from Cons.prems have rest: "\<forall>t\<in>set ts. \<forall>n. py_index t 0 = Inr n \<longrightarrow>
            answer (fa_sqlite_pragma_sql n) = answer (sqlite_pragma_sql n)"
    by simp
  show ?case
  proof (cases "py_index t 0")
    case (Inl e)
    then show ?thesis by simp
  next
    case (Inr n)
    with Cons.prems have same: "answer (fa_sqlite_pragma_sql n) = answer (sqlite_pragma_sql n)"
      by simp
    obtain r1 w1 where x1: "execute_fetchall drv cu (fa_sqlite_pragma_sql n) w = (r1, w1)"
      by (cases "execute_fetchall drv cu (fa_sqlite_pragma_sql n) w")
    obtain r2 w2 where x2: "execute_fetchall drv cu (sqlite_pragma_sql n) w' = (r2, w2)"
      by (cases "execute_fetchall drv cu (sqlite_pragma_sql n) w'")
    from snap x1 have "r1 = answer (fa_sqlite_pragma_sql n)" by (metis fst_conv)
    moreover from snap x2 have "r2 = answer (sqlite_pragma_sql n)" by (metis fst_conv)
    ultimately have eq: "r1 = r2" using same by simp
    show ?thesis
    proof (cases r2)
      case (Inl e)
      with eq Inr x1 x2 show ?thesis by simp
    next
      case r: (Inr columns)
      show ?thesis
      proof (cases "try_map sqlite_column_detail columns")
        case (Inl e)
        with r eq Inr x1 x2 show ?thesis by (simp add: fa_format_sqlite)
      next
        case ds: (Inr column_details)
        from Cons.IH [OF rest, of "parts @ [table_section n column_details]" w1 w2]
        show ?thesis using ds r eq Inr x1 x2 by (simp add: fa_format_sqlite)
      qed
    qed
  qed
qed

text \<open>
  \<^bold>\<open>C6\<close>, as stated, fails on a database that has a table created with AUTOINCREMENT:
  \<open>sqlite_master\<close> then lists the internal table \<open>sqlite_sequence\<close>, which the statement of
  Data\_Base\_Manager.py filters out (\<open>name NOT LIKE 'sqlite_%'\<close>) and the statement of
  fast\_api.py does not. On the same database the two texts differ.
\<close>

theorem sqlite_inspectors_differ_counterexample:
  "fst (get_sqlite_schema (demo_driver True) 0 demo_world0)
     = Inr (''\<newline>  Table: users\<newline>'' @ ''    - id (INTEGER)\<newline>'' @ ''    - name (TEXT)'')
   \<and> fst (fa_get_schema_details (demo_driver True) 0 ''SQLite'' demo_world0)
     = Inr (''\<newline>  Table: users\<newline>'' @ ''    - id (INTEGER)\<newline>'' @ ''    - name (TEXT)''
            @ ''\<newline>\<newline>  Table: sqlite_sequence\<newline>'' @ ''    - name ()\<newline>'' @ ''    - seq ()'')
   \<and> fst (fa_get_schema_details (demo_driver True) 0 ''SQLite'' demo_world0)
     \<noteq> fst (get_sqlite_schema (demo_driver True) 0 demo_world0)"
  by (simp add: get_sqlite_schema_def fa_get_schema_details_def fa_schema_details_try_def
        execute_fetchall_def demo_driver_def demo_answer_def demo_world0_def
        sqlite_tables_sql_def fa_sqlite_tables_sql_def sqlite_pragma_sql_def
        fa_sqlite_pragma_sql_def postgres_columns_sql_def py_index_def
        sqlite_column_detail_def fa_format_table_schema_def fa_column_info_def table_section_def)

text \<open>
  \<^bold>\<open>C6\<close>, amended. Let the cursor answer every statement by \<open>answer\<close>, whatever the
  state of the world (the database does not change during the inspection). If the two
  table-listing statements have the same answer (no table is named like \<open>sqlite_%\<close>), and
  for every listed table \<open>PRAGMA table_info\<close> has the same answer for the bare name that
  fast\_api.py sends as for the quoted name that Data\_Base\_Manager.py sends, then both
  inspectors succeed with the same text, or both fail; on failure fast\_api.py raises a
  plain \<open>Exception\<close> whose text is \<open>Error fetching schema details: \<close> followed by the text
  of the exception that Data\_Base\_Manager.py raises.
\<close>

theorem sqlite_inspectors_agree:
  assumes snap: "\<forall>sql w. fst (execute_fetchall drv cu sql w) = answer sql"
    and same_tables: "answer fa_sqlite_tables_sql = answer sqlite_tables_sql"
    and same_pragma:
      "\<forall>tables. answer sqlite_tables_sql = Inr tables \<longrightarrow>
         (\<forall>t\<in>set tables. \<forall>n. py_index t 0 = Inr n \<longrightarrow>
            answer (fa_sqlite_pragma_sql n) = answer (sqlite_pragma_sql n))"
  shows "fst (fa_get_schema_details drv cu ''SQLite'' w)
           = (case fst (get_sqlite_schema drv cu w) of
                Inl e \<Rightarrow> Inl (Exn PlainException (''Error fetching schema details: '' @ exn_str e))
              | Inr schema \<Rightarrow> Inr schema)"
proof -
  obtain r1 w1 where x1: "execute_fetchall drv cu fa_sqlite_tables_sql w = (r1, w1)"
    by (cases "execute_fetchall drv cu fa_sqlite_tables_sql w")
  obtain r2 w2 where x2: "execute_fetchall drv cu sqlite_tables_sql w = (r2, w2)"
    by (cases "execute_fetchall drv cu sqlite_tables_sql w")
  from snap x1 have a1: "r1 = answer fa_sqlite_tables_sql" by (metis fst_conv)
  from snap x2 have a2: "r2 = answer sqlite_tables_sql" by (metis fst_conv)
  from a1 a2 same_tables have eq: "r1 = r2" by simp
  show ?thesis
  proof (cases r2)
    case (Inl e)
    with eq x1 x2 show ?thesis
      by (simp add: fa_get_schema_details_def fa_schema_details_try_def get_sqlite_schema_def)
  next
    case (Inr tables)
    with a2 have "answer sqlite_tables_sql = Inr tables" by simp
    with same_pragma
    have "\<forall>t\<in>set tables. \<forall>n. py_index t 0 = Inr n \<longrightarrow>
            answer (fa_sqlite_pragma_sql n) = answer (sqlite_pragma_sql n)"
      by blast
    from sqlite_loops_agree [OF snap this, of "[]" w1 w2]
    have loops: "fst (fa_tables_loop drv cu fa_sqlite_pragma_sql ''sqlite'' tables [] w1)
           = fst (sqlite_tables_loop drv cu tables [] w2)" .
    obtain p1 v1 where y1: "fa_tables_loop drv cu fa_sqlite_pragma_sql ''sqlite'' tables [] w1 = (p1, v1)"
      by (cases "fa_tables_loop drv cu fa_sqlite_pragma_sql ''sqlite'' tables [] w1")
    obtain p2 v2 where y2: "sqlite_tables_loop drv cu tables [] w2 = (p2, v2)"
      by (cases "sqlite_tables_loop drv cu tables [] w2")
    from loops y1 y2 have "p1 = p2" by simp
    with Inr eq x1 x2 y1 y2 show ?thesis
      by (cases p2)
         (simp_all add: fa_get_schema_details_def fa_schema_details_try_def get_sqlite_schema_def)
  qed
qed

text \<open>A concrete run that meets the hypotheses.\<close>

theorem sqlite_inspectors_agree_witness:
  "fst (get_sqlite_schema (demo_driver False) 0 demo_world0)
     = Inr (''\<newline>  Table: users\<newline>'' @ ''    - id (INTEGER)\<newline>'' @ ''    - name (TEXT)'')
   \<and> fst (fa_get_schema_details (demo_driver False) 0 ''SQLite'' demo_world0)
     = Inr (''\<newline>  Table: users\<newline>'' @ ''    - id (INTEGER)\<newline>'' @ ''    - name (TEXT)'')"
proof -
  let ?answer = "\<lambda>sql. case demo_answer False sql of
                        Inl e \<Rightarrow> Inl e
                      | Inr (cols, rows) \<Rightarrow> Inr rows"
  have snap: "\<forall>sql w. fst (execute_fetchall (demo_driver False) 0 sql w) = ?answer sql"
    by (simp add: execute_fetchall_def demo_driver_def split: sum.splits prod.splits)
  have tables: "?answer sqlite_tables_sql = Inr [[SText ''users'']]"
    by (simp add: demo_answer_def)
  have same_tables: "?answer fa_sqlite_tables_sql = ?answer sqlite_tables_sql"
    by (simp add: demo_answer_def sqlite_tables_sql_def fa_sqlite_tables_sql_def)
  have users: "?answer (fa_sqlite_pragma_sql (SText ''users''))
                 = ?answer (sqlite_pragma_sql (SText ''users''))"
    by (simp add: demo_answer_def sqlite_tables_sql_def fa_sqlite_tables_sql_def
          sqlite_pragma_sql_def fa_sqlite_pragma_sql_def)
  have same_pragma:
    "\<forall>tables. ?answer sqlite_tables_sql = Inr tables \<longrightarrow>
       (\<forall>t\<in>set tables. \<forall>n. py_index t 0 = Inr n \<longrightarrow>
          ?answer (fa_sqlite_pragma_sql n) = ?answer (sqlite_pragma_sql n))"
    unfolding tables using users by (simp add: py_index_def)
  have v: "fst (get_sqlite_schema (demo_driver False) 0 demo_world0)
     = Inr (''\<newline>  Table: users\<newline>'' @ ''    - id (INTEGER)\<newline>'' @ ''    - name (TEXT)'')"
    by (simp add: get_sqlite_schema_def
        execute_fetchall_def demo_driver_def demo_answer_def demo_world0_def
        sqlite_tables_sql_def fa_sqlite_tables_sql_def sqlite_pragma_sql_def
        fa_sqlite_pragma_sql_def postgres_columns_sql_def py_index_def
        sqlite_column_detail_def table_section_def)
  from sqlite_inspectors_agree [OF snap same_tables same_pragma, of demo_world0]
  show ?thesis unfolding v by simp
qed

end
